theory Spec2Isabelle
  imports Complex_Main "HOL-Library.Monad_Syntax"
begin

section \<open>Python values\<close>

subsection \<open>Strings\<close>

text \<open>
  A Python \<^verbatim>\<open>str\<close> is a \<^typ>\<open>string\<close>: a list of characters, each \<^typ>\<open>char\<close> standing
  for the code point of the same number (U+0000 to U+00FF). \<open>isspace\<close> is
  \<^verbatim>\<open>str.isspace\<close> on one such code point: TAB, LF, VT, FF, CR, the separators
  U+001C to U+001F, the space, NEL (U+0085) and the no-break space (U+00A0).
\<close>

definition isspace :: "char \<Rightarrow> bool" where
  "isspace c =
     (let n = (of_char c :: nat)
      in (9 \<le> n \<and> n \<le> 13) \<or> (28 \<le> n \<and> n \<le> 32) \<or> n = 133 \<or> n = 160)"

definition str_strip :: "string \<Rightarrow> string" where
  \<comment> \<open>\<^verbatim>\<open>s.strip()\<close>\<close>
  "str_strip s = rev (dropWhile isspace (rev (dropWhile isspace s)))"

definition str_rstrip :: "char \<Rightarrow> string \<Rightarrow> string" where
  \<comment> \<open>\<^verbatim>\<open>s.rstrip(c)\<close> for a single character \<open>c\<close>\<close>
  "str_rstrip c s = rev (dropWhile (\<lambda>d. d = c) (rev s))"

definition str_replace :: "char \<Rightarrow> string \<Rightarrow> string \<Rightarrow> string" where
  \<comment> \<open>\<^verbatim>\<open>s.replace(old, new)\<close> for a single character \<open>old\<close>: every occurrence is replaced\<close>
  "str_replace old new s = concat (map (\<lambda>c. if c = old then new else [c]) s)"

fun str_join :: "string \<Rightarrow> string list \<Rightarrow> string" where
  "str_join sep [] = []"
| "str_join sep [x] = x"
| "str_join sep (x # y # ys) = x @ sep @ str_join sep (y # ys)"

fun str_contains :: "string \<Rightarrow> string \<Rightarrow> bool" where
  \<comment> \<open>\<^verbatim>\<open>sub in s\<close> for two strings\<close>
  "str_contains sub [] = (sub = [])"
| "str_contains sub (c # cs) = (take (length sub) (c # cs) = sub \<or> str_contains sub cs)"

definition digit :: "nat \<Rightarrow> char" where
  "digit d = char_of (48 + d)"

function str_nat :: "nat \<Rightarrow> string" where
  "str_nat n = (if n < 10 then [digit n] else str_nat (n div 10) @ [digit (n mod 10)])"
  by pat_completeness auto
termination
  by (relation "measure (\<lambda>n. n)") auto

declare str_nat.simps [simp del]

definition str_int :: "int \<Rightarrow> string" where
  \<comment> \<open>\<^verbatim>\<open>str(i)\<close>, also what an f-string makes of an \<^verbatim>\<open>int\<close>\<close>
  "str_int i = (if i < 0 then CHR ''-'' # str_nat (nat (- i)) else str_nat (nat i))"

definition pad2 :: "nat \<Rightarrow> string" where
  \<comment> \<open>two digits, zero-padded: the fields \<^verbatim>\<open>%m %d %H %M %S\<close> of \<^verbatim>\<open>strftime\<close>\<close>
  "pad2 n = (if n < 10 then CHR ''0'' # str_nat n else str_nat n)"

subsection \<open>Decoded JSON\<close>

text \<open>
  What \<^verbatim>\<open>response.json()\<close> returns: \<^verbatim>\<open>None\<close>, a bool, an int, a float (kept by its
  literal, no operation of the program looks into one), a str, a list, or a dict, whose
  items are listed in insertion order. Python is dynamically typed, so these values are
  also what the fields of a \<^verbatim>\<open>Link\<close> hold, whatever the dataclass declares.
\<close>

datatype json =
    JNull
  | JBool bool
  | JInt int
  | JFloat string
  | JStr string
  | JArr "json list"
  | JObj "(string \<times> json) list"

fun json_depth :: "json \<Rightarrow> nat" where
  \<comment> \<open>how deep the lists and dicts of a value are nested\<close>
  "json_depth (JArr xs) = Suc (foldr max (map json_depth xs) 0)"
| "json_depth (JObj kvs) = Suc (foldr max (map (\<lambda>kv. json_depth (snd kv)) kvs) 0)"
| "json_depth _ = 0"

subsection \<open>Exceptions\<close>

text \<open>
  The subclasses of \<^verbatim>\<open>requests.RequestException\<close> that the HTTP calls raise: the service
  cannot be reached, the call timed out, \<^verbatim>\<open>raise_for_status\<close> met a 4xx or 5xx status,
  the body is not JSON (\<^verbatim>\<open>requests.exceptions.JSONDecodeError\<close>, a \<^verbatim>\<open>RequestException\<close>
  since requests 2.27), or any other one. The exception may carry the response it was
  raised for: its status code and its text.
\<close>

datatype request_failure =
  ConnectionError | Timeout | HTTPError | JSONDecodeError | OtherRequestError

datatype exn =
    RequestException request_failure "(nat \<times> string) option"
  | KeyError json
  | ValueError string
  | TypeError
  | AttributeError
  | IndexError
  | OverflowError
  | RecursionError
  | UnboundLocalError
  | EOFError
  | OSError

fun is_RequestException :: "exn \<Rightarrow> bool" where
  "is_RequestException (RequestException _ _) = True"
| "is_RequestException _ = False"

subsection \<open>Operations on decoded values\<close>

definition getitem :: "json \<Rightarrow> string \<Rightarrow> exn + json" where
  \<comment> \<open>\<^verbatim>\<open>v[k]\<close> with a str key: a dict looks the key up, nothing else takes a str index\<close>
  "getitem v k =
     (case v of
        JObj kvs \<Rightarrow> (case map_of kvs k of Some x \<Rightarrow> Inr x | None \<Rightarrow> Inl (KeyError (JStr k)))
      | _ \<Rightarrow> Inl TypeError)"

definition getitem0 :: "json \<Rightarrow> exn + json" where
  \<comment> \<open>\<^verbatim>\<open>v[0]\<close>: the keys of a decoded dict are strings, so \<open>0\<close> is never one of them\<close>
  "getitem0 v =
     (case v of
        JArr xs \<Rightarrow> (case xs of [] \<Rightarrow> Inl IndexError | x # _ \<Rightarrow> Inr x)
      | JStr s \<Rightarrow> (case s of [] \<Rightarrow> Inl IndexError | c # _ \<Rightarrow> Inr (JStr [c]))
      | JObj kvs \<Rightarrow> Inl (KeyError (JInt 0))
      | _ \<Rightarrow> Inl TypeError)"

definition get_default :: "json \<Rightarrow> string \<Rightarrow> json \<Rightarrow> exn + json" where
  \<comment> \<open>\<^verbatim>\<open>v.get(k, d)\<close>: only a dict has the method\<close>
  "get_default v k d =
     (case v of
        JObj kvs \<Rightarrow> (case map_of kvs k of Some x \<Rightarrow> Inr x | None \<Rightarrow> Inr d)
      | _ \<Rightarrow> Inl AttributeError)"

definition iterate :: "json \<Rightarrow> exn + json list" where
  \<comment> \<open>\<^verbatim>\<open>for x in v\<close>: the items of a list, the keys of a dict, the characters of a str\<close>
  "iterate v =
     (case v of
        JArr xs \<Rightarrow> Inr xs
      | JObj kvs \<Rightarrow> Inr (map JStr (remdups (map fst kvs)))
      | JStr s \<Rightarrow> Inr (map (\<lambda>c. JStr [c]) s)
      | _ \<Rightarrow> Inl TypeError)"

definition len :: "json \<Rightarrow> exn + nat" where
  "len v =
     (case v of
        JArr xs \<Rightarrow> Inr (length xs)
      | JObj kvs \<Rightarrow> Inr (length (remdups (map fst kvs)))
      | JStr s \<Rightarrow> Inr (length s)
      | _ \<Rightarrow> Inl TypeError)"

definition contains :: "string \<Rightarrow> json \<Rightarrow> exn + bool" where
  \<comment> \<open>\<^verbatim>\<open>k in v\<close> with a str \<open>k\<close>: a key of a dict, an item of a list, a substring of a str\<close>
  "contains k v =
     (case v of
        JObj kvs \<Rightarrow> Inr (k \<in> set (map fst kvs))
      | JArr xs \<Rightarrow> Inr (JStr k \<in> set xs)
      | JStr s \<Rightarrow> Inr (str_contains k s)
      | _ \<Rightarrow> Inl TypeError)"

subsection \<open>Dates and times\<close>

text \<open>
  A \<^verbatim>\<open>datetime\<close> is its calendar fields, counted as microseconds since
  0001-01-01T00:00:00, and its \<^verbatim>\<open>tzinfo\<close>: \<open>None\<close> for a naive value, or the offset from
  UTC in microseconds. The instant an aware value denotes is its fields minus its offset,
  and this is what Python compares two aware values by.
\<close>

record datetime =
  wall :: int
  utcoffset :: "int option"

definition replace_tzinfo_utc :: "datetime \<Rightarrow> datetime" where
  \<comment> \<open>\<^verbatim>\<open>dt.replace(tzinfo=timezone.utc)\<close>: the fields stay, the offset becomes zero\<close>
  "replace_tzinfo_utc dt = dt\<lparr>utcoffset := Some 0\<rparr>"

definition instant_of :: "datetime \<Rightarrow> int" where
  "instant_of dt = wall dt - (case utcoffset dt of None \<Rightarrow> 0 | Some off \<Rightarrow> off)"

definition week_us :: int where
  \<comment> \<open>\<^verbatim>\<open>timedelta(days=7)\<close>\<close>
  "week_us = 7 * 86400 * 1000000"

text \<open>The calendar arithmetic of the proleptic Gregorian calendar, as \<^verbatim>\<open>datetime\<close> has it.\<close>

definition is_leap :: "nat \<Rightarrow> bool" where
  "is_leap y = (y mod 4 = 0 \<and> (y mod 100 \<noteq> 0 \<or> y mod 400 = 0))"

definition days_in_month :: "nat \<Rightarrow> nat \<Rightarrow> nat" where
  "days_in_month y m =
     (if m = 2 then (if is_leap y then 29 else 28)
      else if m \<in> {4, 6, 9, 11} then 30 else 31)"

definition days_before_year :: "nat \<Rightarrow> int" where
  "days_before_year y =
     (let p = int y - 1 in p * 365 + p div 4 - p div 100 + p div 400)"

definition days_before_month :: "nat \<Rightarrow> nat \<Rightarrow> int" where
  "days_before_month y m = int (sum_list (map (days_in_month y) [1..<m]))"

definition ymd2ord :: "nat \<Rightarrow> nat \<Rightarrow> nat \<Rightarrow> int" where
  "ymd2ord y m d = days_before_year y + days_before_month y m + int d"

definition wall_us :: "nat \<Rightarrow> nat \<Rightarrow> nat \<Rightarrow> nat \<Rightarrow> nat \<Rightarrow> nat \<Rightarrow> nat \<Rightarrow> int" where
  "wall_us y m d hh mm ss us =
     (((ymd2ord y m d - 1) * 86400 + int hh * 3600 + int mm * 60 + int ss) * 1000000 + int us)"

subsection \<open>Functions of the Python library\<close>

text \<open>
  Three functions of the standard library decide branches of the program and are not
  code of the repository: \<^verbatim>\<open>datetime.fromisoformat\<close>, the conversion \<^verbatim>\<open>int(s)\<close> of a
  string, and the text \<^verbatim>\<open>str(v)\<close> that an f-string puts for a value that is not a str.
  The first two return a value or raise a ValueError (\<open>None\<close>). The program is modelled
  over any such three functions; \<open>reference_lib\<close> below is the instance the concrete
  evaluations use.
\<close>

record pylib =
  lib_fromisoformat :: "string \<Rightarrow> datetime option"
  lib_int :: "string \<Rightarrow> int option"
  lib_str :: "json \<Rightarrow> string"

definition is_digit :: "char \<Rightarrow> bool" where
  "is_digit c = (let n = (of_char c :: nat) in 48 \<le> n \<and> n \<le> 57)"

definition number :: "string \<Rightarrow> nat option" where
  \<comment> \<open>the value of a non-empty run of decimal digits\<close>
  "number s =
     (if s \<noteq> [] \<and> list_all is_digit s
      then Some (foldl (\<lambda>a c. 10 * a + (of_char c - 48)) 0 s) else None)"

definition two_digits :: "string \<Rightarrow> (nat \<times> string) option" where
  "two_digits s =
     (if length s < 2 then None else map_option (\<lambda>n. (n, drop 2 s)) (number (take 2 s)))"

definition expect :: "char \<Rightarrow> string \<Rightarrow> string option" where
  "expect c s = (case s of [] \<Rightarrow> None | d # ds \<Rightarrow> if d = c then Some ds else None)"

definition parse_fraction :: "string \<Rightarrow> nat option" where
  \<comment> \<open>\<^verbatim>\<open>fff\<close> (milliseconds) or \<^verbatim>\<open>ffffff\<close> (microseconds)\<close>
  "parse_fraction s =
     (if length s = 3 then map_option (\<lambda>n. n * 1000) (number s)
      else if length s = 6 then number s else None)"

definition parse_hh_mm_ss_ff :: "string \<Rightarrow> (nat \<times> nat \<times> nat \<times> nat) option" where
  \<comment> \<open>\<^verbatim>\<open>HH[:MM[:SS[.fff[fff]]]]\<close>\<close>
  "parse_hh_mm_ss_ff s = do {
     (hh, r1) \<leftarrow> two_digits s;
     if r1 = [] then Some (hh, 0, 0, 0) else do {
       m1 \<leftarrow> expect (CHR '':'') r1;
       (mm, r2) \<leftarrow> two_digits m1;
       if r2 = [] then Some (hh, mm, 0, 0) else do {
         m2 \<leftarrow> expect (CHR '':'') r2;
         (ss, r3) \<leftarrow> two_digits m2;
         if r3 = [] then Some (hh, mm, ss, 0) else do {
           m3 \<leftarrow> expect (CHR ''.'') r3;
           us \<leftarrow> parse_fraction m3;
           Some (hh, mm, ss, us)
         }
       }
     }
   }"

definition parse_date :: "string \<Rightarrow> (nat \<times> nat \<times> nat) option" where
  \<comment> \<open>\<^verbatim>\<open>YYYY-MM-DD\<close>, ten characters\<close>
  "parse_date s = do {
     y \<leftarrow> number (take 4 s);
     r1 \<leftarrow> expect (CHR ''-'') (drop 4 s);
     (m, r2) \<leftarrow> two_digits r1;
     r3 \<leftarrow> expect (CHR ''-'') r2;
     (d, r4) \<leftarrow> two_digits r3;
     if length s = 10 \<and> r4 = [] then Some (y, m, d) else None
   }"

definition index_of :: "char \<Rightarrow> string \<Rightarrow> nat option" where
  \<comment> \<open>\<^verbatim>\<open>s.find(c)\<close>, with \<open>None\<close> for \<open>-1\<close>\<close>
  "index_of c s = (if c \<in> set s then Some (length (takeWhile (\<lambda>d. d \<noteq> c) s)) else None)"

definition parse_offset :: "string \<Rightarrow> int option" where
  \<comment> \<open>the offset after the sign, \<^verbatim>\<open>HH:MM[:SS[.ffffff]]\<close>, in microseconds\<close>
  "parse_offset s =
     (if length s \<in> {5, 8, 15}
      then map_option (\<lambda>(hh, mm, ss, us).
             (int hh * 3600 + int mm * 60 + int ss) * 1000000 + int us) (parse_hh_mm_ss_ff s)
      else None)"

definition parse_time :: "string \<Rightarrow> ((nat \<times> nat \<times> nat \<times> nat) \<times> int option) option" where
  \<comment> \<open>\<^verbatim>\<open>HH[:MM[:SS[.fff[fff]]]][+HH:MM[:SS[.ffffff]]]\<close>: the offset starts at the first
      \<^verbatim>\<open>-\<close>, or else at the first \<^verbatim>\<open>+\<close>\<close>
  "parse_time s =
     (if length s < 2 then None
      else case index_of (CHR ''-'') s of
        Some i \<Rightarrow> do {
          t \<leftarrow> parse_hh_mm_ss_ff (take i s);
          off \<leftarrow> parse_offset (drop (Suc i) s);
          Some (t, Some (- off)) }
      | None \<Rightarrow>
         (case index_of (CHR ''+'') s of
            Some i \<Rightarrow> do {
              t \<leftarrow> parse_hh_mm_ss_ff (take i s);
              off \<leftarrow> parse_offset (drop (Suc i) s);
              Some (t, Some off) }
          | None \<Rightarrow> map_option (\<lambda>t. (t, None)) (parse_hh_mm_ss_ff s)))"

definition valid_fields ::
  "nat \<times> nat \<times> nat \<Rightarrow> nat \<times> nat \<times> nat \<times> nat \<Rightarrow> int option \<Rightarrow> bool" where
  \<comment> \<open>the range checks of the \<^verbatim>\<open>datetime\<close> and \<^verbatim>\<open>timezone\<close> constructors\<close>
  "valid_fields date time off =
     (case (date, time) of ((y, m, d), (hh, mm, ss, us)) \<Rightarrow>
        1 \<le> y \<and> 1 \<le> m \<and> m \<le> 12 \<and> 1 \<le> d \<and> d \<le> days_in_month y m \<and>
        hh < 24 \<and> mm < 60 \<and> ss < 60 \<and>
        (case off of None \<Rightarrow> True
         | Some x \<Rightarrow> - (86400 * 1000000) < x \<and> x < 86400 * 1000000))"

definition fromisoformat :: "string \<Rightarrow> datetime option" where
  \<comment> \<open>\<^verbatim>\<open>datetime.fromisoformat\<close> in the grammar its documentation gives for Python 3.7 to
      3.10, \<^verbatim>\<open>YYYY-MM-DD[*HH[:MM[:SS[.fff[fff]]]][+HH:MM[:SS[.ffffff]]]]\<close> with any one
      character for \<^verbatim>\<open>*\<close>; later versions read more strings and read these the same way\<close>
  "fromisoformat s = do {
     (y, m, d) \<leftarrow> parse_date (take 10 s);
     ((hh, mm, ss, us), off) \<leftarrow> (if length s \<le> 10 then Some ((0, 0, 0, 0), None)
                                  else parse_time (drop 11 s));
     if valid_fields (y, m, d) (hh, mm, ss, us) off
     then Some \<lparr>wall = wall_us y m d hh mm ss us, utcoffset = off\<rparr>
     else None
   }"

fun int_digits :: "nat \<Rightarrow> string \<Rightarrow> nat option" where
  \<comment> \<open>the digits after a first digit: single underscores may separate them\<close>
  "int_digits acc [] = Some acc"
| "int_digits acc [c] = (if is_digit c then Some (10 * acc + (of_char c - 48)) else None)"
| "int_digits acc (c # d # ds) =
     (if is_digit c then int_digits (10 * acc + (of_char c - 48)) (d # ds)
      else if c = CHR ''_'' \<and> is_digit d then int_digits (10 * acc + (of_char d - 48)) ds
      else None)"

definition int_of_str :: "string \<Rightarrow> int option" where
  \<comment> \<open>\<^verbatim>\<open>int(s)\<close>: surrounding whitespace, an optional sign, decimal digits (the limit
      of 4300 digits of Python 3.11 is not part of it)\<close>
  "int_of_str s =
     (let t = str_strip s;
          (neg, u) = (case t of
                        c # cs \<Rightarrow> if c = CHR ''-'' then (True, cs)
                                  else if c = CHR ''+'' then (False, cs) else (False, t)
                      | [] \<Rightarrow> (False, t))
      in case u of
           [] \<Rightarrow> None
         | c # cs \<Rightarrow>
             if is_digit c
             then map_option (\<lambda>n. if neg then - int n else int n)
                    (int_digits (of_char c - 48) cs)
             else None)"

definition str_atom :: "json \<Rightarrow> string" where
  \<comment> \<open>\<^verbatim>\<open>str(v)\<close> for \<^verbatim>\<open>None\<close>, a bool and an int; the text of a float, a list or a dict
      is not modelled (the empty string stands for it)\<close>
  "str_atom v =
     (case v of
        JNull \<Rightarrow> ''None''
      | JBool b \<Rightarrow> (if b then ''True'' else ''False'')
      | JInt i \<Rightarrow> str_int i
      | JStr s \<Rightarrow> s
      | _ \<Rightarrow> [])"

definition reference_lib :: pylib where
  "reference_lib =
     \<lparr>lib_fromisoformat = fromisoformat, lib_int = int_of_str, lib_str = str_atom\<rparr>"

section \<open>The world the program runs in\<close>

text \<open>
  A reading of the system clock, as the two calls of the program see it:
  \<^verbatim>\<open>datetime.now(timezone.utc)\<close> (microseconds since 0001-01-01T00:00:00 UTC) and the
  naive local \<^verbatim>\<open>datetime.now()\<close> (its calendar fields).
\<close>

record civil =
  year :: nat
  month :: nat
  day :: nat
  hour :: nat
  minute :: nat
  second :: nat

record instant =
  utc_us :: int
  local_now :: civil

text \<open>The requests the program sends (lines 51 to 59 and 101 to 121).\<close>

record get_request =
  get_url :: string
  get_headers :: "(string \<times> string) list"
  get_params :: "(string \<times> json) list"

record post_request =
  post_url :: string
  post_headers :: "(string \<times> string) list"
  payload_model :: "string option"
  payload_system :: string
  payload_user :: string
  payload_temperature :: rat
  payload_max_tokens :: nat
  payload_top_p :: rat
  post_timeout :: nat

text \<open>
  What \<^verbatim>\<open>requests.get\<close> or \<^verbatim>\<open>requests.post\<close>, then \<^verbatim>\<open>raise_for_status()\<close>, then
  \<^verbatim>\<open>json()\<close> come to: one of them raises a \<^verbatim>\<open>RequestException\<close>, or the body is decoded.
\<close>

datatype http_outcome =
    Fails request_failure "(nat \<times> string) option"
  | Body json

text \<open>
  What the program writes to standard output. The lines of the editor review are plain
  text; the progress lines of \<^verbatim>\<open>main\<close> start with a pictograph outside the range of
  \<^typ>\<open>char\<close>, so each of them is a constructor, with the values its f-string carries:
  \<^item> \<open>Fetching\<close>: \<^verbatim>\<open>Fetching weekly links from LinkAce list {list_id}...\<close>
  \<^item> \<open>NoLinksFound\<close>: \<^verbatim>\<open>No links found for this week\<close>
  \<^item> \<open>FoundLinks\<close>: \<^verbatim>\<open>Found {len(links)} links from this week\<close>
  \<^item> \<open>Structuring\<close>: \<^verbatim>\<open>Structuring content with AI...\<close>
  \<^item> \<open>StructuringFailed\<close>: \<^verbatim>\<open>Failed to generate structured content\<close>
  \<^item> \<open>StartingReview\<close>: \<^verbatim>\<open>Starting editor review...\<close>
  \<^item> \<open>Polishing\<close>: \<^verbatim>\<open>Polishing content...\<close>
  \<^item> \<open>Generating\<close>: \<^verbatim>\<open>Generating Hugo markdown file...\<close>
  \<^item> \<open>Complete\<close>: \<^verbatim>\<open>Complete! Hugo content ready at: {output_file}\<close>
  \<^item> \<open>PreviewHint\<close>: \<^verbatim>\<open>Run 'hugo server' in your Hugo directory to preview\<close>
\<close>

datatype printed =
    Print string
  | InputPrompt string
  | Fetching int
  | NoLinksFound
  | FoundLinks nat
  | Structuring
  | StructuringFailed
  | StartingReview
  | Polishing
  | Generating
  | Complete string
  | PreviewHint

text \<open>
  The records the logger emits (level INFO and above; the two \<^verbatim>\<open>logger.debug\<close> calls
  emit nothing at the configured level), one constructor for each call:
  \<^item> \<open>LogFound n list_id\<close> (info): \<^verbatim>\<open>Found {n} links from the past week in list {list_id}\<close>
  \<^item> \<open>LogFetchError e\<close> (error): \<^verbatim>\<open>Error fetching links from LinkAce: {e}\<close>
  \<^item> \<open>LogRequestFailed e\<close> (error): \<^verbatim>\<open>API Request failed: {e}\<close>
  \<^item> \<open>LogHttpResponse code text\<close> (error): \<^verbatim>\<open>HTTP {code} Response: {text[:200]}\<close>
  \<^item> \<open>LogMalformed e\<close> (error): \<^verbatim>\<open>Malformed API response - missing key: {e}\<close>
  \<^item> \<open>LogValidation e\<close> (error): \<^verbatim>\<open>Content validation error: {e}\<close>
  \<^item> \<open>LogUnexpected e\<close> (error): \<^verbatim>\<open>Unexpected error: {type(e).__name__} - {e}\<close>
  \<^item> \<open>LogSaved path\<close> (info): \<^verbatim>\<open>Hugo content saved to: {filepath}\<close>
  \<^item> \<open>LogMainError e\<close> (error): \<^verbatim>\<open>Error in main workflow: {e}\<close>
\<close>

datatype log_record =
    LogFound nat int
  | LogFetchError exn
  | LogRequestFailed exn
  | LogHttpResponse nat string
  | LogMalformed exn
  | LogValidation exn
  | LogUnexpected exn
  | LogSaved string
  | LogMainError exn

text \<open>
  The world: the environment variables (after \<^verbatim>\<open>load_dotenv\<close>), the successive readings
  of the clock, the two remote services (each answers the requests received so far, the
  last one being the current), the lines waiting on standard input, and what the program
  leaves behind: the requests sent, the output, the log, the directories made and the
  files written. \<open>os_refuses\<close> tells for which paths the operating system refuses to make
  the directory or to open the file for writing. \<open>dumps_overflows\<close> tells for which values
  \<^verbatim>\<open>json.dumps(v, indent=2)\<close> runs into the recursion limit of the interpreter: with
  \<^verbatim>\<open>indent\<close> the encoder is the recursive one written in Python, and Python 3.12 decodes
  bodies that are nested deeper than that encoder can follow.
\<close>

record world =
  environ :: "string \<rightharpoonup> string"
  clock :: "nat \<Rightarrow> instant"
  ticks :: nat
  linkace_service :: "get_request list \<Rightarrow> http_outcome"
  gets :: "get_request list"
  completion_service :: "post_request list \<Rightarrow> http_outcome"
  posts :: "post_request list"
  stdin :: "string list"
  stdout :: "printed list"
  logged :: "log_record list"
  dirs :: "string set"
  files :: "string \<rightharpoonup> string"
  os_refuses :: "string \<Rightarrow> bool"
  dumps_overflows :: "json \<Rightarrow> bool"

definition read_clock :: "world \<Rightarrow> instant \<times> world" where
  "read_clock w = (clock w (ticks w), w\<lparr>ticks := Suc (ticks w)\<rparr>)"

definition getenv :: "world \<Rightarrow> string \<Rightarrow> string \<Rightarrow> string" where
  \<comment> \<open>\<^verbatim>\<open>os.getenv(key, default)\<close>\<close>
  "getenv w key dflt = (case environ w key of Some v \<Rightarrow> v | None \<Rightarrow> dflt)"

definition py_print :: "printed \<Rightarrow> world \<Rightarrow> world" where
  "py_print x w = w\<lparr>stdout := stdout w @ [x]\<rparr>"

definition logger :: "log_record \<Rightarrow> world \<Rightarrow> world" where
  "logger r w = w\<lparr>logged := logged w @ [r]\<rparr>"

definition requests_get :: "get_request \<Rightarrow> world \<Rightarrow> (exn + json) \<times> world" where
  \<comment> \<open>lines 59 to 61: \<^verbatim>\<open>requests.get\<close>, \<^verbatim>\<open>raise_for_status\<close>, \<^verbatim>\<open>json\<close>\<close>
  "requests_get rq w =
     (let w' = w\<lparr>gets := gets w @ [rq]\<rparr>
      in case linkace_service w (gets w') of
           Fails f r \<Rightarrow> (Inl (RequestException f r), w')
         | Body b \<Rightarrow> (Inr b, w'))"

definition requests_post :: "post_request \<Rightarrow> world \<Rightarrow> (exn + json) \<times> world" where
  \<comment> \<open>lines 116 to 125: \<^verbatim>\<open>requests.post\<close>, \<^verbatim>\<open>raise_for_status\<close>, \<^verbatim>\<open>json\<close>\<close>
  "requests_post rq w =
     (let w' = w\<lparr>posts := posts w @ [rq]\<rparr>
      in case completion_service w (posts w') of
           Fails f r \<Rightarrow> (Inl (RequestException f r), w')
         | Body b \<Rightarrow> (Inr b, w'))"

definition andThen :: "exn + 'a \<Rightarrow> ('a \<Rightarrow> exn + 'b) \<Rightarrow> exn + 'b" where
  \<comment> \<open>the next statement runs when the one before did not raise\<close>
  "andThen r f = (case r of Inl e \<Rightarrow> Inl e | Inr x \<Rightarrow> f x)"

fun traverse :: "('a \<Rightarrow> exn + 'b) \<Rightarrow> 'a list \<Rightarrow> exn + 'b list" where
  \<comment> \<open>a list comprehension: it stops at the first item that raises\<close>
  "traverse f [] = Inr []"
| "traverse f (x # xs) =
     (case f x of
        Inl e \<Rightarrow> Inl e
      | Inr y \<Rightarrow> (case traverse f xs of Inl e \<Rightarrow> Inl e | Inr ys \<Rightarrow> Inr (y # ys)))"

definition bearer :: "string option \<Rightarrow> string" where
  \<comment> \<open>\<^verbatim>\<open>f'Bearer {self.api_key}'\<close>: an unset key reads \<^verbatim>\<open>None\<close>\<close>
  "bearer k = ''Bearer '' @ (case k of None \<Rightarrow> ''None'' | Some s \<Rightarrow> s)"

section \<open>LinkAceClient\<close>

record Link =
  link_id :: json
  link_url :: json
  link_title :: json
  link_description :: json
  link_created_at :: json
  link_tags :: "json list"

record LinkAceClient =
  linkace_base_url :: string
  linkace_api_key :: "string option"
  linkace_headers :: "(string \<times> string) list"

definition LinkAceClient_init :: "world \<Rightarrow> exn + LinkAceClient" where
  \<comment> \<open>lines 38 to 45; \<^verbatim>\<open>None.rstrip\<close> is an AttributeError\<close>
  "LinkAceClient_init w =
     (case environ w ''LINKACE_BASE_URL'' of
        None \<Rightarrow> Inl AttributeError
      | Some b \<Rightarrow>
          Inr \<lparr>linkace_base_url = str_rstrip (CHR ''/'') b,
               linkace_api_key = environ w ''LINKACE_API_KEY'',
               linkace_headers =
                 [(''Authorization'', bearer (environ w ''LINKACE_API_KEY'')),
                  (''Content-Type'', ''application/json''),
                  (''Accept'', ''application/json'')]\<rparr>)"

definition links_request :: "LinkAceClient \<Rightarrow> int \<Rightarrow> get_request" where
  \<comment> \<open>lines 51 to 56 and the arguments of line 59\<close>
  "links_request self list_id =
     \<lparr>get_url = linkace_base_url self @ ''/api/v2/lists/'' @ str_int list_id @ ''/links'',
      get_headers = linkace_headers self,
      get_params = [(''per_page'', JInt 100), (''order_by'', JStr ''created_at''),
                    (''order_dir'', JStr ''desc'')]\<rparr>"

definition parse_created_at :: "pylib \<Rightarrow> json \<Rightarrow> exn + datetime" where
  \<comment> \<open>line 66, on the value of \<^verbatim>\<open>link_data['created_at']\<close>; only a str has \<^verbatim>\<open>replace\<close>\<close>
  "parse_created_at L raw =
     andThen (case raw of
                JStr s \<Rightarrow> Inr (str_replace (CHR ''Z'') ''+00:00'' s)
              | _ \<Rightarrow> Inl AttributeError) (\<lambda>s.
     andThen (case lib_fromisoformat L s of
                Some dt \<Rightarrow> Inr dt
              | None \<Rightarrow> Inl (ValueError ''Invalid isoformat string'')) (\<lambda>dt.
     Inr (replace_tzinfo_utc dt)))"

definition read_link :: "pylib \<Rightarrow> datetime \<Rightarrow> json \<Rightarrow> exn + Link option" where
  \<comment> \<open>the body of the loop, lines 65 to 78: the link to append, if any\<close>
  "read_link L one_week_ago link_data =
     andThen (getitem link_data ''created_at'') (\<lambda>raw.
     andThen (parse_created_at L raw) (\<lambda>created.
     if instant_of one_week_ago \<le> instant_of created then
       andThen (get_default link_data ''tags'' (JArr [])) (\<lambda>tv.
       andThen (iterate tv) (\<lambda>ts.
       andThen (traverse (\<lambda>tag. getitem tag ''name'') ts) (\<lambda>names.
       andThen (getitem link_data ''id'') (\<lambda>i.
       andThen (getitem link_data ''url'') (\<lambda>u.
       andThen (getitem link_data ''title'') (\<lambda>t.
       andThen (get_default link_data ''description'' (JStr [])) (\<lambda>d.
       andThen (getitem link_data ''created_at'') (\<lambda>c.
       Inr (Some \<lparr>link_id = i, link_url = u, link_title = t, link_description = d,
                  link_created_at = c, link_tags = names\<rparr>)))))))))
     else Inr None))"

fun read_links :: "pylib \<Rightarrow> datetime \<Rightarrow> json list \<Rightarrow> Link list \<Rightarrow> exn + Link list" where
  \<comment> \<open>the loop of line 64, with \<^verbatim>\<open>links\<close> as accumulator\<close>
  "read_links L one_week_ago [] links = Inr links"
| "read_links L one_week_ago (link_data # rest) links =
     (case read_link L one_week_ago link_data of
        Inl e \<Rightarrow> Inl e
      | Inr None \<Rightarrow> read_links L one_week_ago rest links
      | Inr (Some l) \<Rightarrow> read_links L one_week_ago rest (links @ [l]))"

definition response_records :: "json \<Rightarrow> exn + json list" where
  \<comment> \<open>what the loop of line 64 runs over: \<^verbatim>\<open>data.get('data', [])\<close>\<close>
  "response_records data = andThen (get_default data ''data'' (JArr [])) iterate"

definition one_week_ago_of :: "instant \<Rightarrow> datetime" where
  \<comment> \<open>line 49, an aware value in UTC\<close>
  "one_week_ago_of t = \<lparr>wall = utc_us t - week_us, utcoffset = Some 0\<rparr>"

definition get_weekly_links ::
  "pylib \<Rightarrow> LinkAceClient \<Rightarrow> int \<Rightarrow> world \<Rightarrow> (exn + Link list) \<times> world" where
  \<comment> \<open>lines 47 to 85. Line 49 is outside the \<^verbatim>\<open>try\<close>: a date before year 1 is an
      OverflowError. The \<^verbatim>\<open>except\<close> clause takes a \<^verbatim>\<open>RequestException\<close> and nothing else.\<close>
  "get_weekly_links L self list_id w =
     (let (t, w1) = read_clock w in
      if utc_us t - week_us < 0 then (Inl OverflowError, w1)
      else
        let one_week_ago = one_week_ago_of t;
            (r, w2) = requests_get (links_request self list_id) w1
        in case andThen r (\<lambda>data.
                andThen (response_records data) (\<lambda>items.
                read_links L one_week_ago items []))
           of Inr links \<Rightarrow> (Inr links, logger (LogFound (length links) list_id) w2)
            | Inl e \<Rightarrow>
                if is_RequestException e then (Inr [], logger (LogFetchError e) w2)
                else (Inl e, w2))"

section \<open>OpenRouterClient\<close>

record OpenRouterClient =
  openrouter_api_key :: "string option"
  openrouter_base_url :: string
  openrouter_headers :: "(string \<times> string) list"
  openrouter_model :: "string option"

definition OpenRouterClient_init :: "world \<Rightarrow> OpenRouterClient" where
  \<comment> \<open>lines 90 to 97\<close>
  "OpenRouterClient_init w =
     \<lparr>openrouter_api_key = environ w ''OPENROUTER_API_KEY'',
      openrouter_base_url = ''https://openrouter.ai/api/v1'',
      openrouter_headers =
        [(''Authorization'', bearer (environ w ''OPENROUTER_API_KEY'')),
         (''Content-Type'', ''application/json'')],
      openrouter_model = environ w ''OPENROUTER_MODEL''\<rparr>"

definition completion_request :: "OpenRouterClient \<Rightarrow> string \<Rightarrow> rat \<Rightarrow> post_request" where
  \<comment> \<open>the payload of lines 101 to 113 and the arguments of lines 116 to 121\<close>
  "completion_request self prompt temperature =
     \<lparr>post_url = openrouter_base_url self @ ''/chat/completions'',
      post_headers = openrouter_headers self,
      payload_model = openrouter_model self,
      payload_system = ''You are an expert content curator and technical writer.'',
      payload_user = prompt,
      payload_temperature = temperature,
      payload_max_tokens = 2048,
      payload_top_p = 95 / 100,
      post_timeout = 30\<rparr>"

definition read_completion :: "json \<Rightarrow> exn + string" where
  \<comment> \<open>lines 126 to 134 on the decoded body; \<^verbatim>\<open>or\<close> evaluates its right side only when
      the key is there, and only a str has \<^verbatim>\<open>strip\<close>\<close>
  "read_completion result =
     andThen (contains ''choices'' result) (\<lambda>present.
     andThen (if \<not> present then Inr True
              else andThen (andThen (getitem result ''choices'') len) (\<lambda>n. Inr (n = 0)))
       (\<lambda>no_choices.
     if no_choices then Inl (ValueError ''Empty choices in API response'')
     else
       andThen (getitem result ''choices'') (\<lambda>choices.
       andThen (getitem0 choices) (\<lambda>choice.
       andThen (getitem choice ''message'') (\<lambda>message.
       andThen (getitem message ''content'') (\<lambda>content.
       andThen (case content of JStr s \<Rightarrow> Inr s | _ \<Rightarrow> Inl AttributeError) (\<lambda>s.
       if str_strip s = [] then Inl (ValueError ''Empty content in LLM response'')
       else Inr s)))))))"

definition response_is_truthy :: "(nat \<times> string) option \<Rightarrow> bool" where
  \<comment> \<open>line 138, \<^verbatim>\<open>hasattr(e, 'response') and e.response\<close>: a \<^verbatim>\<open>Response\<close> is true when
      its status is not a 4xx or 5xx one\<close>
  "response_is_truthy r =
     (case r of None \<Rightarrow> False | Some (code, text) \<Rightarrow> \<not> (400 \<le> code \<and> code < 600))"

definition handle_failure ::
  "json option \<Rightarrow> exn \<Rightarrow> world \<Rightarrow> (exn + string) \<times> world" where
  \<comment> \<open>the four \<^verbatim>\<open>except\<close> clauses of lines 136 to 154 in their order: RequestException,
      KeyError, ValueError, Exception. \<open>result\<close> is the decoded body, if line 125 was
      reached. The f-string of line 144 is evaluated before \<^verbatim>\<open>logger.debug\<close> drops its
      record: it reads \<^verbatim>\<open>result\<close> (an UnboundLocalError when the name is not bound) and
      calls \<^verbatim>\<open>json.dumps(result, indent=2)\<close> (a RecursionError when the body is nested too
      deep); an exception raised inside an \<^verbatim>\<open>except\<close> clause leaves the function.\<close>
  "handle_failure result e w =
     (case e of
        RequestException f resp \<Rightarrow>
          (let w2 = logger (LogRequestFailed e) w
           in (Inr [],
               if response_is_truthy resp
               then (case resp of
                       Some (code, text) \<Rightarrow> logger (LogHttpResponse code (take 200 text)) w2
                     | None \<Rightarrow> w2)
               else w2))
      | KeyError k \<Rightarrow>
          (let w2 = logger (LogMalformed e) w
           in case result of
                None \<Rightarrow> (Inl UnboundLocalError, w2)
              | Some v \<Rightarrow> if dumps_overflows w v then (Inl RecursionError, w2) else (Inr [], w2))
      | ValueError m \<Rightarrow> (Inr [], logger (LogValidation e) w)
      | _ \<Rightarrow> (Inr [], logger (LogUnexpected e) w))"

definition call_llm ::
  "OpenRouterClient \<Rightarrow> string \<Rightarrow> rat \<Rightarrow> world \<Rightarrow> (exn + string) \<times> world" where
  \<comment> \<open>lines 99 to 154: the \<^verbatim>\<open>try\<close> block and its handlers\<close>
  "call_llm self prompt temperature w =
     (let (r, w1) = requests_post (completion_request self prompt temperature) w
      in case r of
           Inl e \<Rightarrow> handle_failure None e w1
         | Inr result \<Rightarrow>
            (case read_completion result of
               Inr content \<Rightarrow> (Inr content, w1)
             | Inl e \<Rightarrow> handle_failure (Some result) e w1))"

section \<open>ContentProcessor\<close>

record ContentProcessor =
  openrouter :: OpenRouterClient

definition ContentProcessor_init :: "world \<Rightarrow> ContentProcessor" where
  "ContentProcessor_init w = \<lparr>openrouter = OpenRouterClient_init w\<rparr>"

definition fmt :: "pylib \<Rightarrow> json \<Rightarrow> string" where
  \<comment> \<open>a value in an f-string: a str as it is, anything else through \<^verbatim>\<open>str\<close>\<close>
  "fmt L v = (case v of JStr s \<Rightarrow> s | _ \<Rightarrow> lib_str L v)"

definition join_tags :: "json list \<Rightarrow> exn + string" where
  \<comment> \<open>\<^verbatim>\<open>', '.join(link.tags)\<close>: an item that is not a str is a TypeError\<close>
  "join_tags ts =
     andThen (traverse (\<lambda>t. case t of JStr s \<Rightarrow> Inr s | _ \<Rightarrow> Inl TypeError) ts) (\<lambda>names.
     Inr (str_join '', '' names))"

definition link_block :: "pylib \<Rightarrow> Link \<Rightarrow> exn + string" where
  \<comment> \<open>lines 168 to 172\<close>
  "link_block L link =
     andThen (join_tags (link_tags link)) (\<lambda>joined.
     Inr (''**'' @ fmt L (link_title link) @ ''**\<newline>'' @
          ''URL: '' @ fmt L (link_url link) @ ''\<newline>'' @
          ''Description: '' @ fmt L (link_description link) @ ''\<newline>'' @
          ''Tags: '' @ joined @ ''\<newline>'' @
          ''Date: '' @ fmt L (link_created_at link) @ ''\<newline>---\<newline>''))"

definition structure_prompt :: "nat \<Rightarrow> string \<Rightarrow> string" where
  \<comment> \<open>the f-string of lines 177 to 201, with \<open>n\<close> for \<^verbatim>\<open>len(links)\<close>\<close>
  "structure_prompt n links_text =
     ''\<newline>'' @
     ''        Create a well-structured weekly digest from these '' @
     str_nat n @
     '' links I've saved this week.\<newline>'' @
     ''\<newline>'' @
     ''        LINKS DATA:\<newline>'' @
     ''        '' @
     links_text @
     ''\<newline>'' @
     ''\<newline>'' @
     ''        REQUIREMENTS:\<newline>'' @
     ''        1. Restructure the links as a easy to read list\<newline>'' @
     ''        2. write a general 300 words description of the week activity\<newline>'' @
     ''        3. Provide brief, insightful summaries inside the general description\<newline>'' @
     ''        4. each link must come from from LINKS_DATA\<newline>'' @
     ''        5. Use proper markdown formatting with headers, lists, and emphasis\<newline>'' @
     ''        6. Make it SEO-friendly with good structure\<newline>'' @
     ''        7. Keep tone professional but engaging, you have 20+ years experience of url link curation\<newline>'' @
     ''        8. Suggest relevant tags for the post\<newline>'' @
     ''        9. DO NOT create links not available in LINKS_DATA\<newline>'' @
     ''\<newline>'' @
     ''        FORMAT:\<newline>'' @
     ''        - Use bullet points or numbered lists for links\<newline>'' @
     ''        - Footer includes following links:\<newline>'' @
     ''          - shared.girard-davila.net linkace instance with stored links\<newline>'' @
     ''          - github.com/alx/weekly_news github repository of the code used to generate this newsletter\<newline>'' @
     ''\<newline>'' @
     ''        Make this content publication-ready for a technical blog.\<newline>'' @
     ''        ''"

definition structure_links ::
  "pylib \<Rightarrow> ContentProcessor \<Rightarrow> Link list \<Rightarrow> world \<Rightarrow> (exn + string) \<times> world" where
  \<comment> \<open>lines 163 to 203\<close>
  "structure_links L self links w =
     (case traverse (link_block L) links of
        Inl e \<Rightarrow> (Inl e, w)
      | Inr blocks \<Rightarrow>
          call_llm (openrouter self)
            (structure_prompt (length links) (str_join ''\<newline>'' blocks)) (7 / 10) w)"

definition approved :: string where
  \<comment> \<open>the literal of lines 216 and 220\<close>
  "approved = ''Content approved as-is''"

definition get_editor_feedback :: "string \<Rightarrow> world \<Rightarrow> (exn + string) \<times> world" where
  \<comment> \<open>lines 205 to 216; \<^verbatim>\<open>input\<close> at the end of standard input is an EOFError\<close>
  "get_editor_feedback content w =
     (let w1 = py_print (Print (''\<newline>'' @ replicate 80 (CHR ''=''))) w;
          w2 = py_print (Print ''EDITOR REVIEW PHASE'') w1;
          w3 = py_print (Print (replicate 80 (CHR ''=''))) w2;
          w4 = py_print (Print ''\<newline>Generated content:'') w3;
          w5 = py_print (Print (replicate 40 (CHR ''-''))) w4;
          w6 = py_print (Print content) w5;
          w7 = py_print (Print (replicate 40 (CHR ''-''))) w6;
          w8 = py_print (InputPrompt
                 ''\<newline>Editor feedback (press Enter for no changes, or provide feedback): '') w7
      in case stdin w8 of
           [] \<Rightarrow> (Inl EOFError, w8)
         | line # rest \<Rightarrow>
             (let feedback = str_strip line
              in (Inr (if feedback \<noteq> [] then feedback else approved), w8\<lparr>stdin := rest\<rparr>)))"

definition polish_prompt :: "string \<Rightarrow> string \<Rightarrow> string" where
  \<comment> \<open>the f-string of lines 223 to 240\<close>
  "polish_prompt content feedback =
     ''\<newline>'' @
     ''        Original content:\<newline>'' @
     ''        '' @
     content @
     ''\<newline>'' @
     ''\<newline>'' @
     ''        Editor feedback:\<newline>'' @
     ''        '' @
     feedback @
     ''\<newline>'' @
     ''\<newline>'' @
     ''        Please revise the content based on the editor's feedback while maintaining:\<newline>'' @
     ''        - Proper markdown formatting\<newline>'' @
     ''        - SEO-friendly structure  \<newline>'' @
     ''        - Engaging tone\<newline>'' @
     ''        - Technical accuracy\<newline>'' @
     ''        - 20+ years of link curation experience\<newline>'' @
     ''        - Best source of insightful links in multiple social circles\<newline>'' @
     ''        - People look for value, give them best value\<newline>'' @
     ''\<newline>'' @
     ''        Return the polished version.\<newline>'' @
     ''        ''"

definition polish_content ::
  "ContentProcessor \<Rightarrow> string \<Rightarrow> string \<Rightarrow> world \<Rightarrow> (exn + string) \<times> world" where
  \<comment> \<open>lines 218 to 242\<close>
  "polish_content self content feedback w =
     (if feedback = approved then (Inr content, w)
      else call_llm (openrouter self) (polish_prompt content feedback) (1 / 2) w)"

section \<open>HugoContentGenerator\<close>

subsection \<open>Paths\<close>

text \<open>
  A \<^verbatim>\<open>pathlib.Path\<close> on a POSIX system: the root (\<^verbatim>\<open>/\<close>, \<^verbatim>\<open>//\<close> for exactly two leading
  slashes, or none) and the components, where empty ones and \<^verbatim>\<open>.\<close> are dropped.
\<close>

record Path =
  anchor :: string
  parts :: "string list"

fun split_on :: "char \<Rightarrow> string \<Rightarrow> string list" where
  \<comment> \<open>\<^verbatim>\<open>s.split(c)\<close>\<close>
  "split_on c [] = [[]]"
| "split_on c (d # ds) =
     (if d = c then [] # split_on c ds
      else (case split_on c ds of p # ps \<Rightarrow> (d # p) # ps | [] \<Rightarrow> [[d]]))"

definition path_of_str :: "string \<Rightarrow> Path" where
  "path_of_str s =
     \<lparr>anchor = (if take 2 s = ''//'' \<and> take 3 s \<noteq> ''///'' then ''//''
                else if take 1 s = ''/'' then ''/'' else []),
      parts = filter (\<lambda>p. p \<noteq> [] \<and> p \<noteq> ''.'') (split_on (CHR ''/'') s)\<rparr>"

definition path_str :: "Path \<Rightarrow> string" where
  \<comment> \<open>\<^verbatim>\<open>str(p)\<close>\<close>
  "path_str p =
     (if anchor p = [] \<and> parts p = [] then ''.'' else anchor p @ str_join ''/'' (parts p))"

definition joinpath :: "Path \<Rightarrow> string \<Rightarrow> Path" where
  \<comment> \<open>\<^verbatim>\<open>p / s\<close>: an absolute right side replaces the left one\<close>
  "joinpath p s =
     (let q = path_of_str s
      in if anchor q \<noteq> [] then q else \<lparr>anchor = anchor p, parts = parts p @ parts q\<rparr>)"

definition with_parents :: "Path \<Rightarrow> string set" where
  \<comment> \<open>the directory and the directories above it\<close>
  "with_parents p =
     (\<lambda>k. path_str \<lparr>anchor = anchor p, parts = take k (parts p)\<rparr>) ` {0..length (parts p)}"

subsection \<open>Formatting\<close>

definition month_name :: "nat \<Rightarrow> string" where
  \<comment> \<open>\<^verbatim>\<open>%B\<close> in the C locale, which the program never changes; a clock reading has its
      month between 1 and 12\<close>
  "month_name m =
     (if m = 1 then ''January'' else if m = 2 then ''February'' else if m = 3 then ''March''
      else if m = 4 then ''April'' else if m = 5 then ''May'' else if m = 6 then ''June''
      else if m = 7 then ''July'' else if m = 8 then ''August''
      else if m = 9 then ''September'' else if m = 10 then ''October''
      else if m = 11 then ''November'' else if m = 12 then ''December'' else [])"

definition strftime_title :: "civil \<Rightarrow> string" where
  \<comment> \<open>\<^verbatim>\<open>strftime('%B %d, %Y')\<close>; \<^verbatim>\<open>%Y\<close> is the year in decimal, four digits from the year
      1000 on\<close>
  "strftime_title c = month_name (month c) @ '' '' @ pad2 (day c) @ '', '' @ str_nat (year c)"

definition strftime_date :: "civil \<Rightarrow> string" where
  \<comment> \<open>\<^verbatim>\<open>strftime('%Y-%m-%d')\<close>\<close>
  "strftime_date c = str_nat (year c) @ ''-'' @ pad2 (month c) @ ''-'' @ pad2 (day c)"

definition strftime_stamp :: "civil \<Rightarrow> string" where
  \<comment> \<open>\<^verbatim>\<open>strftime('%Y-%m-%dT%H:%M:%S%z')\<close> of \<^verbatim>\<open>datetime.now()\<close>: the value is naive, and
      \<^verbatim>\<open>%z\<close> of a naive value is the empty string\<close>
  "strftime_stamp c =
     str_nat (year c) @ ''-'' @ pad2 (month c) @ ''-'' @ pad2 (day c) @ ''T'' @
     pad2 (hour c) @ '':'' @ pad2 (minute c) @ '':'' @ pad2 (second c) @ []"

definition hex_digit :: "nat \<Rightarrow> char" where
  "hex_digit d = (if d < 10 then char_of (48 + d) else char_of (87 + d))"

definition json_escape :: "char \<Rightarrow> string" where
  \<comment> \<open>one character of a string in \<^verbatim>\<open>json.dumps\<close> (\<^verbatim>\<open>ensure_ascii\<close> is on)\<close>
  \<open>json_escape c =
     (let n = (of_char c :: nat)
      in if c = CHR ''"'' then [CHR 0x5C, CHR ''"'']
         else if n = 0x5C then [CHR 0x5C, CHR 0x5C]
         else if n = 10 then [CHR 0x5C, CHR ''n'']
         else if n = 13 then [CHR 0x5C, CHR ''r'']
         else if n = 9 then [CHR 0x5C, CHR ''t'']
         else if n = 8 then [CHR 0x5C, CHR ''b'']
         else if n = 12 then [CHR 0x5C, CHR ''f'']
         else if n < 32 \<or> 126 < n
           then [CHR 0x5C, CHR ''u'', CHR ''0'', CHR ''0'', hex_digit (n div 16), hex_digit (n mod 16)]
         else [c])\<close>

definition json_dumps :: "string list \<Rightarrow> string" where
  \<comment> \<open>\<^verbatim>\<open>json.dumps\<close> of a list of strings\<close>
  \<open>json_dumps xs =
     ''['' @ str_join '', '' (map (\<lambda>s. [CHR ''"''] @ concat (map json_escape s) @ [CHR ''"'']) xs) @ '']''\<close>

subsection \<open>The generator\<close>

record HugoContentGenerator =
  content_path :: Path

definition HugoContentGenerator_init :: "world \<Rightarrow> (exn + HugoContentGenerator) \<times> world" where
  \<comment> \<open>lines 247 to 249; \<^verbatim>\<open>mkdir(parents=True, exist_ok=True)\<close> raises an OSError where the
      operating system refuses\<close>
  "HugoContentGenerator_init w =
     (let p = path_of_str (getenv w ''HUGO_CONTENT_PATH'' ''./content/posts'')
      in if os_refuses w (path_str p) then (Inl OSError, w)
         else (Inr \<lparr>content_path = p\<rparr>, w\<lparr>dirs := dirs w \<union> with_parents p\<rparr>))"

definition frontmatter_text :: "world \<Rightarrow> civil \<Rightarrow> string \<Rightarrow> string list \<Rightarrow> string" where
  \<comment> \<open>the f-string of lines 255 to 265\<close>
  \<open>frontmatter_text w now title tags =
     ''---\<newline>'' @
     ''title: "'' @
     title @
     ''"\<newline>'' @
     ''date: '' @
     strftime_stamp now @
     ''\<newline>'' @
     ''draft: false\<newline>'' @
     ''description: "Weekly curated links and insights from my reading list"\<newline>'' @
     ''categories: ["Weekly Digest", "Curated Links"]\<newline>'' @
     ''tags: '' @
     json_dumps tags @
     ''\<newline>'' @
     ''author: "'' @
     getenv w ''EDITOR_NAME'' ''Editor'' @
     ''"\<newline>'' @
     ''---\<newline>'' @
     ''\<newline>''\<close>

definition generate_frontmatter ::
  "HugoContentGenerator \<Rightarrow> string \<Rightarrow> string list \<Rightarrow> world \<Rightarrow> string \<times> world" where
  \<comment> \<open>lines 251 to 266\<close>
  "generate_frontmatter self title tags w =
     (let (t, w1) = read_clock w in (frontmatter_text w1 (local_now t) title tags, w1))"

definition meta_content_text :: "int \<Rightarrow> string \<Rightarrow> string" where
  \<comment> \<open>the f-string of lines 287 to 294\<close>
  "meta_content_text links_count content =
     ''\<newline>'' @
     ''*This week I discovered '' @
     str_int links_count @
     '' interesting links. Here's what caught my attention:*\<newline>'' @
     ''\<newline>'' @
     content @
     ''\<newline>'' @
     ''\<newline>'' @
     ''---\<newline>'' @
     ''*This digest was automatically generated from my [LinkAce](https://linkace.org) bookmark collection and curated with AI assistance.*\<newline>''"

definition digest_tags :: "string list" where
  \<comment> \<open>line 275\<close>
  "digest_tags = [''weekly-digest'', ''curated-links'', ''reading-list'']"

definition save_content ::
  "HugoContentGenerator \<Rightarrow> string \<Rightarrow> int \<Rightarrow> world \<Rightarrow> (exn + string) \<times> world" where
  \<comment> \<open>lines 268 to 303. The clock is read three times (lines 272, 278 and, in
      \<^verbatim>\<open>generate_frontmatter\<close>, 253); \<^verbatim>\<open>lines\<close> of line 271 is never used; \<^verbatim>\<open>open\<close> raises an
      OSError where the operating system refuses.\<close>
  "save_content self content links_count w =
     (let (t1, w1) = read_clock w;
          title = ''Weekly Links Digest - Week of '' @ strftime_title (local_now t1);
          tags = digest_tags;
          (t2, w2) = read_clock w1;
          date_str = strftime_date (local_now t2);
          filename_prefix = getenv w2 ''OUTPUT_FILENAME_PREFIX'' ''weekly-links'';
          filename = date_str @ ''-'' @ filename_prefix @ ''.md'';
          filepath = joinpath (content_path self) filename;
          (frontmatter, w3) = generate_frontmatter self title tags w2;
          meta_content = meta_content_text links_count content;
          full_content = frontmatter @ meta_content
      in if os_refuses w3 (path_str filepath) then (Inl OSError, w3)
         else (Inr (path_str filepath),
               logger (LogSaved (path_str filepath))
                 (w3\<lparr>files := (files w3)(path_str filepath \<mapsto> full_content)\<rparr>)))"

section \<open>The workflow\<close>

definition bindW ::
  "(world \<Rightarrow> (exn + 'a) \<times> world) \<Rightarrow> ('a \<Rightarrow> world \<Rightarrow> (exn + 'b) \<times> world)
     \<Rightarrow> world \<Rightarrow> (exn + 'b) \<times> world" where
  \<comment> \<open>one statement after another: an exception ends the sequence, the world stays as
      the raising statement left it\<close>
  "bindW m f w = (case m w of (Inl e, w') \<Rightarrow> (Inl e, w') | (Inr x, w') \<Rightarrow> f x w')"

definition pure :: "exn + 'a \<Rightarrow> world \<Rightarrow> (exn + 'a) \<times> world" where
  \<comment> \<open>a statement that leaves the world as it is\<close>
  "pure r w = (r, w)"

definition workflow :: "pylib \<Rightarrow> world \<Rightarrow> (exn + unit) \<times> world" where
  \<comment> \<open>the \<^verbatim>\<open>try\<close> block of \<^verbatim>\<open>main\<close>, lines 308 to 342\<close>
  "workflow L =
     bindW (\<lambda>w. pure (LinkAceClient_init w) w) (\<lambda>linkace.
     bindW (\<lambda>w. pure (Inr (ContentProcessor_init w)) w) (\<lambda>processor.
     bindW HugoContentGenerator_init (\<lambda>hugo_generator.
     bindW (\<lambda>w. pure (case lib_int L (getenv w ''TARGET_LIST_ID'' ''1'') of
                          Some i \<Rightarrow> Inr i
                        | None \<Rightarrow> Inl (ValueError ''invalid literal for int()'')) w) (\<lambda>list_id.
     bindW (\<lambda>w. (Inr (), py_print (Fetching list_id) w)) (\<lambda>_.
     bindW (get_weekly_links L linkace list_id) (\<lambda>links.
     if links = [] then (\<lambda>w. (Inr (), py_print NoLinksFound w))
     else
       bindW (\<lambda>w. (Inr (), py_print (FoundLinks (length links)) w)) (\<lambda>_.
       bindW (\<lambda>w. (Inr (), py_print Structuring w)) (\<lambda>_.
       bindW (structure_links L processor links) (\<lambda>structured_content.
       if structured_content = [] then (\<lambda>w. (Inr (), py_print StructuringFailed w))
       else
         bindW (\<lambda>w. (Inr (), py_print StartingReview w)) (\<lambda>_.
         bindW (get_editor_feedback structured_content) (\<lambda>feedback.
         bindW (\<lambda>w. (Inr (), py_print Polishing w)) (\<lambda>_.
         bindW (polish_content processor structured_content feedback) (\<lambda>final_content.
         bindW (\<lambda>w. (Inr (), py_print Generating w)) (\<lambda>_.
         bindW (save_content hugo_generator final_content (int (length links)))
           (\<lambda>output_file.
         bindW (\<lambda>w. (Inr (), py_print (Complete output_file) w)) (\<lambda>_.
         (\<lambda>w. (Inr (), py_print PreviewHint w))))))))))))))))))"

definition main :: "pylib \<Rightarrow> world \<Rightarrow> (exn + unit) \<times> world" where
  \<comment> \<open>lines 305 to 346: an exception of the block is logged and raised again\<close>
  "main L w =
     (case workflow L w of
        (Inl e, w') \<Rightarrow> (Inl e, logger (LogMainError e) w')
      | (Inr u, w') \<Rightarrow> (Inr u, w'))"

section \<open>Concrete inputs\<close>

text \<open>
  The inputs of the evaluations below: a configured environment, a clock that stands at
  2024-01-15T00:00:00 UTC (09:05:00 local time), records of the bookmark service and
  answers of the completion service. The interpreter has its default recursion limit of
  1000 frames: \<^verbatim>\<open>json.dumps(v, indent=2)\<close> needs more than one frame for each level of
  nesting, so it overflows at the latest for a value nested 1000 deep.
\<close>

definition sample_env :: "string \<rightharpoonup> string" where
  "sample_env =
     [''LINKACE_BASE_URL'' \<mapsto> ''https://links.example.org/'',
      ''LINKACE_API_KEY'' \<mapsto> ''secret'']"

definition sample_instant :: instant where
  "sample_instant =
     \<lparr>utc_us = wall_us 2024 1 15 0 0 0 0,
      local_now = \<lparr>year = 2024, month = 1, day = 15, hour = 9, minute = 5, second = 0\<rparr>\<rparr>"

definition sample_world ::
  "(get_request list \<Rightarrow> http_outcome) \<Rightarrow> (post_request list \<Rightarrow> http_outcome) \<Rightarrow> string list
     \<Rightarrow> world" where
  "sample_world bookmarks completions lines =
     \<lparr>environ = sample_env, clock = (\<lambda>_. sample_instant), ticks = 0,
      linkace_service = bookmarks, gets = [],
      completion_service = completions, posts = [],
      stdin = lines, stdout = [], logged = [], dirs = {}, files = Map.empty,
      os_refuses = (\<lambda>_. False),
      dumps_overflows = (\<lambda>v. 1000 \<le> json_depth v)\<rparr>"

definition sample_client :: LinkAceClient where
  "sample_client =
     \<lparr>linkace_base_url = ''https://links.example.org'',
      linkace_api_key = Some ''secret'',
      linkace_headers =
        [(''Authorization'', ''Bearer secret''),
         (''Content-Type'', ''application/json''),
         (''Accept'', ''application/json'')]\<rparr>"

definition record_of :: "string \<Rightarrow> json" where
  \<comment> \<open>a complete record of the service with the given creation timestamp\<close>
  "record_of stamp =
     JObj [(''id'', JInt 1), (''url'', JStr ''https://a.example''), (''title'', JStr ''A''),
           (''description'', JNull), (''created_at'', JStr stamp),
           (''tags'', JArr [JObj [(''name'', JStr ''x'')], JObj [(''name'', JStr ''y'')]])]"

definition link_of :: "string \<Rightarrow> Link" where
  \<comment> \<open>the \<^verbatim>\<open>Link\<close> made from \<open>record_of stamp\<close>\<close>
  "link_of stamp =
     \<lparr>link_id = JInt 1, link_url = JStr ''https://a.example'', link_title = JStr ''A'',
      link_description = JNull, link_created_at = JStr stamp,
      link_tags = [JStr ''x'', JStr ''y'']\<rparr>"

definition body_of :: "json list \<Rightarrow> http_outcome" where
  "body_of records = Body (JObj [(''data'', JArr records)])"

definition completion_of :: "string \<Rightarrow> http_outcome" where
  \<comment> \<open>an answer of the completion service with one choice\<close>
  "completion_of text =
     Body (JObj [(''choices'', JArr [JObj [(''message'', JObj [(''content'', JStr text)])]])])"

definition fresh_stamp :: string where
  "fresh_stamp = ''2024-01-14T10:00:00.000000Z''"

definition offset_stamp :: string where
  \<comment> \<open>the instant 2024-01-07T21:00:00 UTC, three hours before the bound of the sample clock\<close>
  "offset_stamp = ''2024-01-08T02:00:00+05:00''"

definition no_completion :: "post_request list \<Rightarrow> http_outcome" where
  "no_completion = (\<lambda>_. Fails Timeout None)"

definition world_offset_record :: world where
  "world_offset_record = sample_world (\<lambda>_. body_of [record_of offset_stamp]) no_completion []"

definition world_missing_field :: world where
  \<comment> \<open>the service answers with a record that has no \<^verbatim>\<open>created_at\<close>\<close>
  "world_missing_field = sample_world (\<lambda>_. body_of [JObj [(''id'', JInt 1)]]) no_completion []"

definition world_unreachable :: world where
  "world_unreachable = sample_world (\<lambda>_. Fails ConnectionError None) no_completion []"

definition world_completion :: "http_outcome \<Rightarrow> world" where
  \<comment> \<open>the completion service gives the same answer to every request\<close>
  "world_completion answer = sample_world (\<lambda>_. body_of []) (\<lambda>_. answer) []"

definition sample_openrouter :: OpenRouterClient where
  "sample_openrouter = OpenRouterClient_init (sample_world (\<lambda>_. body_of []) no_completion [])"

definition sample_processor :: ContentProcessor where
  "sample_processor = \<lparr>openrouter = sample_openrouter\<rparr>"

definition world_no_records :: world where
  \<comment> \<open>the service answers with an empty list of records\<close>
  "world_no_records = sample_world (\<lambda>_. body_of []) no_completion []"

definition sample_generator :: HugoContentGenerator where
  \<comment> \<open>the generator for the default \<^verbatim>\<open>./content/posts\<close>\<close>
  "sample_generator = \<lparr>content_path = \<lparr>anchor = [], parts = [''content'', ''posts'']\<rparr>\<rparr>"

definition revision_fails :: "post_request list \<Rightarrow> http_outcome" where
  \<comment> \<open>the completion service answers the first request and times out on the second\<close>
  "revision_fails h = (if length h = 1 then completion_of ''Digest'' else Fails Timeout None)"

definition world_failed_revision :: world where
  \<comment> \<open>one record of the day before, and a reviewer who asks for a change\<close>
  "world_failed_revision =
     sample_world (\<lambda>_. body_of [record_of fresh_stamp]) revision_fails [''make it shorter'']"

definition same_setting :: "world \<Rightarrow> world \<Rightarrow> bool" where
  \<comment> \<open>the parts of the world that no statement of the program changes\<close>
  "same_setting w w' =
     (environ w' = environ w \<and> clock w' = clock w \<and> linkace_service w' = linkace_service w \<and>
      completion_service w' = completion_service w \<and> os_refuses w' = os_refuses w \<and>
      dumps_overflows w' = dumps_overflows w)"

definition late_offset_stamp :: string where
  \<comment> \<open>the instant 2024-01-07T23:00:00 UTC, one hour before the bound of the sample clock\<close>
  "late_offset_stamp = ''2024-01-08T08:00:00+09:00''"

definition world_late_offset_record :: world where
  "world_late_offset_record =
     sample_world (\<lambda>_. body_of [record_of late_offset_stamp]) no_completion []"

primrec nested :: "nat \<Rightarrow> json" where
  \<comment> \<open>\<^verbatim>\<open>[[...[]...]]\<close>: the empty list inside \<open>n\<close> lists\<close>
  "nested 0 = JArr []"
| "nested (Suc n) = JArr [nested n]"

definition deep_body :: json where
  \<comment> \<open>a body with one choice that has no \<^verbatim>\<open>message\<close> and holds a value nested 1000 deep\<close>
  "deep_body = JObj [(''choices'', JArr [JObj [(''data'', nested 1000)]])]"

definition other_instant :: instant where
  "other_instant =
     \<lparr>utc_us = wall_us 2025 12 3 14 59 58 0,
      local_now = \<lparr>year = 2025, month = 12, day = 3, hour = 23, minute = 59, second = 58\<rparr>\<rparr>"

definition configured_env :: "string \<rightharpoonup> string" where
  "configured_env =
     [''HUGO_CONTENT_PATH'' \<mapsto> ''/srv/site/content'',
      ''OUTPUT_FILENAME_PREFIX'' \<mapsto> ''digest'',
      ''EDITOR_NAME'' \<mapsto> ''Ada'']"

definition world_configured :: world where
  \<comment> \<open>another day, with the directory, the prefix and the author configured\<close>
  "world_configured =
     (sample_world (\<lambda>_. body_of []) no_completion [])
       \<lparr>environ := configured_env, clock := (\<lambda>_. other_instant)\<rparr>"

definition configured_generator :: HugoContentGenerator where
  \<comment> \<open>the generator for \<^verbatim>\<open>/srv/site/content\<close>\<close>
  "configured_generator =
     \<lparr>content_path = \<lparr>anchor = ''/'', parts = [''srv'', ''site'', ''content'']\<rparr>\<rparr>"

section \<open>Properties\<close>

subsection \<open>Sequencing\<close>

lemma andThen_Inr [simp]: "andThen (Inr x) f = f x" by (simp add: andThen_def)
lemma andThen_Inl [simp]: "andThen (Inl e) f = Inl e" by (simp add: andThen_def)
lemma andThen_eq_Inr: "andThen r f = Inr y \<longleftrightarrow> (\<exists>x. r = Inr x \<and> f x = Inr y)" by (cases r) simp_all
lemma andThen_InlE:
  assumes "andThen r f = Inl e"
  obtains "r = Inl e" | x where "r = Inr x" "f x = Inl e"
  using assms by (cases r) simp_all

subsection \<open>\<^verbatim>\<open>LinkAceClient.get_weekly_links\<close>\<close>

text \<open>
  Nothing that reads the decoded body raises a \<^verbatim>\<open>RequestException\<close>: the \<^verbatim>\<open>except\<close> clause
  of line 83 takes the failures of the HTTP call only.
\<close>

lemma getitem_error: "is_RequestException e \<Longrightarrow> getitem v k \<noteq> Inl e"
  by (auto simp: getitem_def split: json.splits option.splits)
lemma get_default_error: "is_RequestException e \<Longrightarrow> get_default v k d \<noteq> Inl e"
  by (auto simp: get_default_def split: json.splits option.splits)
lemma iterate_error: "is_RequestException e \<Longrightarrow> iterate v \<noteq> Inl e"
  by (auto simp: iterate_def split: json.splits)
lemma traverse_error:
  assumes "\<And>x. f x \<noteq> Inl e"
  shows "traverse f xs \<noteq> Inl e"
  using assms by (induction xs) (auto split: sum.splits)
lemma parse_created_at_error: "is_RequestException e \<Longrightarrow> parse_created_at L raw \<noteq> Inl e"
  by (auto simp: parse_created_at_def split: json.splits option.splits)

lemma read_link_error: "is_RequestException e \<Longrightarrow> read_link L owa x \<noteq> Inl e"
  unfolding read_link_def
  by (auto elim!: andThen_InlE split: if_splits
      simp: getitem_error get_default_error iterate_error parse_created_at_error traverse_error)

lemma read_links_error: "is_RequestException e \<Longrightarrow> read_links L owa items acc \<noteq> Inl e"
  by (induction items arbitrary: acc) (auto split: sum.splits option.splits simp: read_link_error)

lemma response_records_error: "is_RequestException e \<Longrightarrow> response_records data \<noteq> Inl e"
  unfolding response_records_def
  by (auto elim!: andThen_InlE simp: get_default_error iterate_error)

text \<open>The outcomes of \<^verbatim>\<open>get_weekly_links\<close>, one for each path through lines 47 to 85.\<close>

lemma get_weekly_links_cases:
  "get_weekly_links L self list_id w =
     (let t = clock w (ticks w);
          w1 = w\<lparr>ticks := Suc (ticks w)\<rparr>;
          w2 = w\<lparr>ticks := Suc (ticks w), gets := gets w @ [links_request self list_id]\<rparr>
      in if utc_us t - week_us < 0 then (Inl OverflowError, w1)
         else case linkace_service w (gets w @ [links_request self list_id]) of
           Fails f r \<Rightarrow> (Inr [], logger (LogFetchError (RequestException f r)) w2)
         | Body data \<Rightarrow>
            (case andThen (response_records data) (\<lambda>items. read_links L (one_week_ago_of t) items []) of
               Inr links \<Rightarrow> (Inr links, logger (LogFound (length links) list_id) w2)
             | Inl e \<Rightarrow> (Inl e, w2)))"
proof -
  have plain: "\<not> is_RequestException e"
    if "andThen (response_records data) (\<lambda>items. read_links L owa items []) = Inl e"
    for data owa e
    using that by (auto elim!: andThen_InlE simp: response_records_error read_links_error)
  show ?thesis
    unfolding get_weekly_links_def read_clock_def requests_get_def Let_def
    by (auto simp: plain split: http_outcome.splits sum.splits)
qed


lemma get_weekly_links_body:
  assumes "linkace_service w (gets w @ [links_request self list_id]) = Body data"
    and "week_us \<le> utc_us (clock w (ticks w))"
    and "response_records data = Inr items"
  shows "fst (get_weekly_links L self list_id w) =
           read_links L (one_week_ago_of (clock w (ticks w))) items []"
  using assms by (simp add: get_weekly_links_cases Let_def split: sum.splits)

text \<open>Evaluation on the concrete inputs.\<close>

lemma sample_bound: "utc_us sample_instant - week_us = 63840268800000000"
  by code_simp

lemma sample_clock_late: "week_us \<le> utc_us sample_instant"
  by code_simp

lemma fresh_parse:
  "fromisoformat (str_replace (CHR ''Z'') ''+00:00'' fresh_stamp) =
     Some \<lparr>wall = 63840823200000000, utcoffset = Some 0\<rparr>"
  by code_simp

lemma offset_parse:
  "fromisoformat (str_replace (CHR ''Z'') ''+00:00'' offset_stamp) =
     Some \<lparr>wall = 63840276000000000, utcoffset = Some 18000000000\<rparr>"
  by code_simp

lemma offset_parse_plain:
  "fromisoformat offset_stamp = Some \<lparr>wall = 63840276000000000, utcoffset = Some 18000000000\<rparr>"
  by code_simp

lemma read_link_record_of:
  assumes "lib_fromisoformat L (str_replace (CHR ''Z'') ''+00:00'' stamp) = Some dt"
  shows "read_link L owa (record_of stamp) =
           Inr (if instant_of owa \<le> wall dt then Some (link_of stamp) else None)"
  using assms
  by (simp add: read_link_def record_of_def getitem_def get_default_def iterate_def
      parse_created_at_def replace_tzinfo_utc_def instant_of_def link_of_def)

lemma response_records_body [simp]: "response_records (JObj [(''data'', JArr xs)]) = Inr xs"
  by (simp add: response_records_def get_default_def iterate_def)

lemma sample_world_sel [simp]:
  "clock (sample_world b c l) n = sample_instant"
  "ticks (sample_world b c l) = 0"
  "gets (sample_world b c l) = []"
  "posts (sample_world b c l) = []"
  "linkace_service (sample_world b c l) = b"
  "completion_service (sample_world b c l) = c"
  "stdin (sample_world b c l) = l"
  "stdout (sample_world b c l) = []"
  "logged (sample_world b c l) = []"
  "files (sample_world b c l) = Map.empty"
  "environ (sample_world b c l) = sample_env"
  "os_refuses (sample_world b c l) p = False"
  by (simp_all add: sample_world_def)

lemma sample_owa [simp]: "instant_of (one_week_ago_of sample_instant) = 63840268800000000"
  using sample_bound by (simp add: instant_of_def one_week_ago_of_def)

lemma late_offset_parse:
  "fromisoformat (str_replace (CHR ''Z'') ''+00:00'' late_offset_stamp) =
     Some \<lparr>wall = 63840297600000000, utcoffset = Some 32400000000\<rparr>"
  by code_simp

lemma late_offset_parse_plain:
  "fromisoformat late_offset_stamp =
     Some \<lparr>wall = 63840297600000000, utcoffset = Some 32400000000\<rparr>"
  by code_simp

text \<open>
  C1 fails on the code for a timestamp with an offset other than zero. The creation time
  that line 69 compares is the value of line 66, whose offset has been overwritten with
  UTC; it is not the time the timestamp denotes. With the clock at 2024-01-15T00:00:00 UTC
  the bound is 2024-01-08T00:00:00 UTC. The record stamped \<^verbatim>\<open>2024-01-08T08:00:00+09:00\<close> was
  created at 2024-01-07T23:00:00 UTC, one hour before the bound, and \<^verbatim>\<open>get_weekly_links\<close>
  returns it.
\<close>

theorem record_before_bound_is_returned:
  "fst (get_weekly_links reference_lib sample_client 1 world_late_offset_record) =
     Inr [link_of late_offset_stamp] \<and>
   (\<exists>dt. fromisoformat late_offset_stamp = Some dt \<and>
      utcoffset dt = Some (9 * 3600 * 1000000) \<and>
      instant_of dt = utc_us sample_instant - week_us - 3600 * 1000000)"
proof -
  have "fst (get_weekly_links reference_lib sample_client 1 world_late_offset_record) =
          read_links reference_lib (one_week_ago_of sample_instant) [record_of late_offset_stamp] []"
    using get_weekly_links_body [of world_late_offset_record sample_client 1
        "JObj [(''data'', JArr [record_of late_offset_stamp])]" "[record_of late_offset_stamp]"
        reference_lib]
    by (simp add: world_late_offset_record_def body_of_def sample_clock_late)
  also have "\<dots> = Inr [link_of late_offset_stamp]"
    by (simp add: read_link_record_of [where dt = "\<lparr>wall = 63840297600000000, utcoffset = Some 32400000000\<rparr>"]
        reference_lib_def late_offset_parse)
  finally have run: "fst (get_weekly_links reference_lib sample_client 1 world_late_offset_record) =
    Inr [link_of late_offset_stamp]" .
  have "utcoffset \<lparr>wall = 63840297600000000, utcoffset = Some 32400000000\<rparr> =
          Some (9 * 3600 * 1000000)"
    and "instant_of \<lparr>wall = 63840297600000000, utcoffset = Some 32400000000\<rparr> =
          utc_us sample_instant - week_us - 3600 * 1000000"
    unfolding sample_bound by (simp_all add: instant_of_def)
  with late_offset_parse_plain run show ?thesis by blast
qed

text \<open>
  Counterexample to C2 as stated: the service answers with status 200 and a record that has
  no \<^verbatim>\<open>created_at\<close>. Line 66 raises a KeyError, the \<^verbatim>\<open>except\<close> clause of line 83 does not
  take it, and \<^verbatim>\<open>get_weekly_links\<close> raises instead of returning the empty list.
\<close>

theorem missing_field_raises:
  "fst (get_weekly_links reference_lib sample_client 1 world_missing_field) =
     Inl (KeyError (JStr ''created_at'')) \<and>
   fst (get_weekly_links reference_lib sample_client 1 world_missing_field) \<noteq> Inr []"
proof -
  have "fst (get_weekly_links reference_lib sample_client 1 world_missing_field) =
          read_links reference_lib (one_week_ago_of sample_instant) [JObj [(''id'', JInt 1)]] []"
    using get_weekly_links_body [of world_missing_field sample_client 1
        "JObj [(''data'', JArr [JObj [(''id'', JInt 1)]])]" "[JObj [(''id'', JInt 1)]]" reference_lib]
    by (simp add: world_missing_field_def body_of_def sample_clock_late)
  also have "\<dots> = Inl (KeyError (JStr ''created_at''))"
    by (simp add: read_link_def getitem_def)
  finally show ?thesis by simp
qed

text \<open>
  C2, amended: when the HTTP call raises a \<^verbatim>\<open>RequestException\<close> (the service cannot be
  reached, the call times out, the status is not a success, the body is not JSON),
  \<^verbatim>\<open>get_weekly_links\<close> does not raise: it logs the failure at error level and returns the
  empty list. (The clock is past the first week of year 1, so line 49 does not overflow.)
\<close>

theorem request_failure_gives_empty:
  assumes "linkace_service w (gets w @ [links_request self list_id]) = Fails f r"
    and "week_us \<le> utc_us (clock w (ticks w))"
  shows "fst (get_weekly_links L self list_id w) = Inr [] \<and>
         logged (snd (get_weekly_links L self list_id w)) =
           logged w @ [LogFetchError (RequestException f r)]"
  using assms by (simp add: get_weekly_links_cases Let_def logger_def)

text \<open>Witness for C2, amended: the service cannot be reached.\<close>

theorem request_failure_gives_empty_witness:
  "linkace_service world_unreachable (gets world_unreachable @ [links_request sample_client 1]) =
     Fails ConnectionError None \<and>
   week_us \<le> utc_us (clock world_unreachable (ticks world_unreachable)) \<and>
   fst (get_weekly_links reference_lib sample_client 1 world_unreachable) = Inr [] \<and>
   logged (snd (get_weekly_links reference_lib sample_client 1 world_unreachable)) =
     [LogFetchError (RequestException ConnectionError None)]"
proof -
  have svc: "linkace_service world_unreachable (gets world_unreachable @ [links_request sample_client 1]) =
     Fails ConnectionError None"
    by (simp add: world_unreachable_def)
  have clk: "week_us \<le> utc_us (clock world_unreachable (ticks world_unreachable))"
    by (simp add: world_unreachable_def sample_clock_late)
  from request_failure_gives_empty [OF svc clk, of reference_lib] svc clk
  show ?thesis by (simp add: world_unreachable_def)
qed

text \<open>
  C6 fails on the code: line 66 parses the offset and then overwrites it with UTC
  (\<^verbatim>\<open>replace(tzinfo=timezone.utc)\<close> keeps the calendar fields), so the filter compares the
  wall-clock fields, not the instant. With the clock at 2024-01-15T00:00:00 UTC the bound
  is 2024-01-08T00:00:00 UTC; the record stamped \<^verbatim>\<open>2024-01-08T02:00:00+05:00\<close> denotes
  2024-01-07T21:00:00 UTC, before the bound, and is returned all the same.
\<close>

theorem offset_record_misclassified:
  "fst (get_weekly_links reference_lib sample_client 1 world_offset_record) = Inr [link_of offset_stamp] \<and>
   (\<exists>dt. fromisoformat offset_stamp = Some dt \<and> instant_of dt < utc_us sample_instant - week_us)"
proof -
  have "fst (get_weekly_links reference_lib sample_client 1 world_offset_record) =
          read_links reference_lib (one_week_ago_of sample_instant) [record_of offset_stamp] []"
    using get_weekly_links_body [of world_offset_record sample_client 1
        "JObj [(''data'', JArr [record_of offset_stamp])]" "[record_of offset_stamp]" reference_lib]
    by (simp add: world_offset_record_def body_of_def sample_clock_late)
  also have "\<dots> = Inr [link_of offset_stamp]"
    by (simp add: read_link_record_of [where dt = "\<lparr>wall = 63840276000000000, utcoffset = Some 18000000000\<rparr>"]
        reference_lib_def offset_parse)
  finally have run: "fst (get_weekly_links reference_lib sample_client 1 world_offset_record) =
    Inr [link_of offset_stamp]" .
  have "instant_of \<lparr>wall = 63840276000000000, utcoffset = Some 18000000000\<rparr>
          < utc_us sample_instant - week_us"
    unfolding sample_bound by (simp add: instant_of_def)
  with offset_parse_plain run show ?thesis by blast
qed

subsection \<open>\<^verbatim>\<open>OpenRouterClient.call_llm\<close>\<close>

lemma str_strip_Nil [simp]: "str_strip [] = []"
  by (simp add: str_strip_def)

text \<open>The result of \<^verbatim>\<open>call_llm\<close>, one case for each path through lines 115 to 154.\<close>

lemma call_llm_result:
  "fst (call_llm self prompt temperature w) =
     (case completion_service w (posts w @ [completion_request self prompt temperature]) of
        Fails f r \<Rightarrow> Inr []
      | Body b \<Rightarrow>
          (case read_completion b of
             Inr s \<Rightarrow> Inr s
           | Inl e \<Rightarrow>
               (case e of
                  KeyError k \<Rightarrow> if dumps_overflows w b then Inl RecursionError else Inr []
                | _ \<Rightarrow> Inr [])))"
  by (simp add: call_llm_def requests_post_def handle_failure_def Let_def logger_def
      split: http_outcome.splits sum.splits exn.splits)

lemma call_llm_posts:
  "posts (snd (call_llm self prompt temperature w)) =
     posts w @ [completion_request self prompt temperature]"
  by (simp add: call_llm_def requests_post_def handle_failure_def Let_def logger_def
      split: http_outcome.splits sum.splits exn.splits option.splits)

lemma call_llm_returns:
  assumes "\<And>b. completion_service w (posts w @ [completion_request self prompt temperature]) = Body b
             \<Longrightarrow> \<not> dumps_overflows w b"
  shows "\<exists>s. fst (call_llm self prompt temperature w) = Inr s"
  using assms by (auto simp: call_llm_result split: http_outcome.splits sum.splits exn.splits)

lemma world_completion_service [simp]:
  "completion_service (world_completion answer) h = answer"
  by (simp add: world_completion_def)

lemma digest_strip: "str_strip ''Digest'' = ''Digest''"
  by code_simp

lemma read_completion_of:
  "read_completion (JObj [(''choices'', JArr [JObj [(''message'', JObj [(''content'', JStr text)])]])]) =
     (if str_strip text = [] then Inl (ValueError ''Empty content in LLM response'') else Inr text)"
  by (simp add: read_completion_def contains_def getitem_def len_def getitem0_def)

lemma nested_depth: "json_depth (nested n) = Suc n"
  by (induction n) simp_all

lemma unread_choice:
  "read_completion (JObj [(''choices'', JArr [JObj [(''data'', v)]])]) =
     Inl (KeyError (JStr ''message''))"
  by (simp add: read_completion_def contains_def getitem_def len_def getitem0_def)

text \<open>
  C3 fails on the code in one handler. The clause for KeyError (lines 142 to 145) builds
  the text of a debug record with \<^verbatim>\<open>json.dumps(result, indent=2)\<close> before \<^verbatim>\<open>logger.debug\<close> can
  drop it, and an exception raised inside an \<^verbatim>\<open>except\<close> clause is not taken by the clauses
  after it. The service answers with a body whose first choice has no \<^verbatim>\<open>message\<close> and holds
  a value nested 1000 deep: line 130 raises a KeyError, the handler logs it, \<^verbatim>\<open>json.dumps\<close>
  exceeds the recursion limit, and \<^verbatim>\<open>call_llm\<close> raises a RecursionError. The same body with
  a value nested 3 deep gives the empty string.
\<close>

theorem call_llm_raises_on_deep_body:
  "fst (call_llm sample_openrouter ''p'' (7 / 10) (world_completion (Body deep_body))) =
     Inl RecursionError \<and>
   fst (call_llm sample_openrouter ''p'' (7 / 10)
          (world_completion (Body (JObj [(''choices'', JArr [JObj [(''data'', nested 3)]])])))) =
     Inr []"
  by (simp add: call_llm_result deep_body_def unread_choice world_completion_def sample_world_def
      nested_depth)

subsection \<open>\<^verbatim>\<open>ContentProcessor\<close>\<close>

text \<open>
  C4: with the feedback \<^verbatim>\<open>Content approved as-is\<close>, \<^verbatim>\<open>polish_content\<close> returns the content
  as it is and leaves the world as it is: no request is sent to the completion service.
\<close>

theorem polish_content_approved:
  "polish_content self content ''Content approved as-is'' w = (Inr content, w) \<and>
   posts (snd (polish_content self content ''Content approved as-is'' w)) = posts w"
  by (simp add: polish_content_def approved_def)

text \<open>
  Witness for C4, on a world whose completion service would answer with another text.
\<close>

theorem polish_content_approved_witness:
  "polish_content sample_processor ''Digest'' ''Content approved as-is''
     (world_completion (completion_of ''Other'')) =
     (Inr ''Digest'', world_completion (completion_of ''Other'')) \<and>
   posts (snd (polish_content sample_processor ''Digest'' ''Content approved as-is''
     (world_completion (completion_of ''Other'')))) = []"
  using polish_content_approved [of sample_processor "''Digest''" "world_completion (completion_of ''Other'')"]
  by (simp add: world_completion_def)

text \<open>\<^verbatim>\<open>strip\<close> leaves no whitespace at either end.\<close>

lemma dropWhile_rev_nonspace:
  assumes "rev (dropWhile P (rev xs)) \<noteq> []"
  shows "\<not> P (last (rev (dropWhile P (rev xs))))"
proof -
  from assms have ne: "dropWhile P (rev xs) \<noteq> []" by simp
  then have "\<not> P (hd (dropWhile P (rev xs)))" by (rule hd_dropWhile)
  with ne show ?thesis by (simp add: last_rev)
qed

lemma hd_rev_dropWhile_rev:
  assumes "rev (dropWhile P (rev xs)) \<noteq> []" and "xs \<noteq> []" and "\<not> P (hd xs)"
  shows "hd (rev (dropWhile P (rev xs))) = hd xs"
proof -
  from assms(2) obtain x ys where xs: "xs = x # ys" by (cases xs) auto
  with assms(3) have "\<not> P x" by simp
  then have "dropWhile P (rev ys @ [x]) = dropWhile P (rev ys) @ [x]"
    by (induction "rev ys" arbitrary: ys) (auto simp: dropWhile_append)
  with xs show ?thesis by simp
qed

lemma str_strip_ends:
  assumes "str_strip s \<noteq> []"
  shows "\<not> isspace (hd (str_strip s))" and "\<not> isspace (last (str_strip s))"
proof -
  let ?t = "dropWhile isspace s"
  have t: "?t \<noteq> []"
  proof
    assume e: "?t = []"
    have "str_strip s = rev (dropWhile isspace (rev ?t))" by (simp only: str_strip_def)
    also have "\<dots> = []" by (simp only: e rev.simps dropWhile.simps)
    finally show False using assms by simp
  qed
  then have h: "\<not> isspace (hd ?t)" by (rule hd_dropWhile)
  from assms have "hd (str_strip s) = hd ?t"
    unfolding str_strip_def
    using hd_rev_dropWhile_rev [of isspace ?t] t h by simp
  with h show "\<not> isspace (hd (str_strip s))" by simp
  from assms show "\<not> isspace (last (str_strip s))"
    unfolding str_strip_def by (rule dropWhile_rev_nonspace)
qed

text \<open>\<^verbatim>\<open>strip\<close> removes the whitespace around a text and nothing else.\<close>

lemma str_strip_middle:
  assumes "\<forall>c\<in>set pre. isspace c" and "\<forall>c\<in>set post. isspace c"
    and "body \<noteq> []" and "\<not> isspace (hd body)" and "\<not> isspace (last body)"
  shows "str_strip (pre @ body @ post) = body"
proof -
  from assms(3,4) have "dropWhile isspace (body @ post) = body @ post"
    by (cases body) simp_all
  with assms(1) have front: "dropWhile isspace (pre @ body @ post) = body @ post"
    by (simp add: dropWhile_append2)
  from assms(3,5) have "dropWhile isspace (rev body) = rev body"
    by (cases body rule: rev_cases) simp_all
  moreover from assms(2) have "dropWhile isspace (rev post @ rev body) = dropWhile isspace (rev body)"
    using dropWhile_append2 [of "rev post" isspace "rev body"] by simp
  ultimately have "dropWhile isspace (rev post @ rev body) = rev body"
    by (simp only:)
  with front show ?thesis by (simp add: str_strip_def)
qed

lemma str_strip_blank:
  assumes "\<forall>c\<in>set s. isspace c"
  shows "str_strip s = []"
proof -
  from assms have "dropWhile isspace s = []"
    using dropWhile_eq_Nil_conv [of isspace s] by blast
  then show ?thesis by (simp only: str_strip_def rev.simps dropWhile.simps)
qed

lemma get_editor_feedback_result:
  assumes "stdin w = line # rest"
  shows "fst (get_editor_feedback content w) =
           Inr (if str_strip line = [] then approved else str_strip line)"
  using assms by (simp add: get_editor_feedback_def py_print_def Let_def)

lemma get_editor_feedback_posts:
  "posts (snd (get_editor_feedback content w)) = posts w"
  by (simp add: get_editor_feedback_def py_print_def Let_def split: list.splits)

text \<open>
  C10: \<^verbatim>\<open>get_editor_feedback\<close> reads one line and returns it without the whitespace at its
  two ends: a line that is whitespace, a text that begins and ends with a character that is
  not whitespace, and whitespace again gives that text, whitespace inside it included. A
  line of whitespace only, the empty line among them, gives the sentinel
  \<^verbatim>\<open>Content approved as-is\<close>, so the result is never empty. A reviewer who types the sentinel
  itself gets the same result as one who types nothing, and \<^verbatim>\<open>polish_content\<close> with that
  result returns the content without a remote call.
\<close>

theorem editor_feedback_sentinel:
  assumes "stdin w = line # rest"
  shows "(\<forall>pre body post.
            line = pre @ body @ post \<and> (\<forall>c\<in>set pre. isspace c) \<and> (\<forall>c\<in>set post. isspace c) \<and>
            body \<noteq> [] \<and> \<not> isspace (hd body) \<and> \<not> isspace (last body) \<longrightarrow>
              fst (get_editor_feedback content w) = Inr body) \<and>
         ((\<forall>c\<in>set line. isspace c) \<longrightarrow>
            fst (get_editor_feedback content w) = Inr ''Content approved as-is'') \<and>
         (\<exists>feedback. fst (get_editor_feedback content w) = Inr feedback \<and> feedback \<noteq> [] \<and>
            \<not> isspace (hd feedback) \<and> \<not> isspace (last feedback)) \<and>
         (\<forall>pre post.
            line = pre @ ''Content approved as-is'' @ post \<and>
            (\<forall>c\<in>set pre. isspace c) \<and> (\<forall>c\<in>set post. isspace c) \<longrightarrow>
              fst (get_editor_feedback content w) = Inr ''Content approved as-is'' \<and>
              posts (snd (get_editor_feedback content w)) = posts w \<and>
              (\<forall>self c v. polish_content self c ''Content approved as-is'' v = (Inr c, v)))"
proof -
  have res: "fst (get_editor_feedback content w) =
           Inr (if str_strip line = [] then ''Content approved as-is'' else str_strip line)"
    using get_editor_feedback_result [OF assms] by (simp add: approved_def)
  have sentinel: "\<not> isspace (hd ''Content approved as-is'')"
    "\<not> isspace (last ''Content approved as-is'')"
    by (simp_all add: isspace_def)
  have middle: "fst (get_editor_feedback content w) = Inr body"
    if "line = pre @ body @ post" "\<forall>c\<in>set pre. isspace c" "\<forall>c\<in>set post. isspace c"
      "body \<noteq> []" "\<not> isspace (hd body)" "\<not> isspace (last body)" for pre body post
    using res that str_strip_middle [of pre post body] by simp
  have blank: "fst (get_editor_feedback content w) = Inr ''Content approved as-is''"
    if "\<forall>c\<in>set line. isspace c"
    using res str_strip_blank [OF that] by simp
  have ends: "\<exists>feedback. fst (get_editor_feedback content w) = Inr feedback \<and> feedback \<noteq> [] \<and>
            \<not> isspace (hd feedback) \<and> \<not> isspace (last feedback)"
  proof (cases "str_strip line = []")
    case True
    with res sentinel show ?thesis by simp
  next
    case False
    with res str_strip_ends [OF False] show ?thesis by simp
  qed
  have typed: "fst (get_editor_feedback content w) = Inr ''Content approved as-is''"
    if "line = pre @ ''Content approved as-is'' @ post" "\<forall>c\<in>set pre. isspace c"
      "\<forall>c\<in>set post. isspace c" for pre post
    using middle [OF that] sentinel by simp
  have polish: "polish_content self c ''Content approved as-is'' v = (Inr c, v)" for self c v
    by (simp add: polish_content_def approved_def)
  from middle blank ends typed polish get_editor_feedback_posts [of content w]
  show ?thesis by blast
qed

text \<open>
  Witness for C10: the reviewer types a remark between a tab and spaces, the sentinel
  between spaces, only a space, or nothing.
\<close>

theorem editor_feedback_sentinel_witness:
  "fst (get_editor_feedback ''Digest''
          (sample_world (\<lambda>_. body_of []) no_completion
             [[CHR 0x09, CHR '' ''] @ ''make it  shorter, please.'' @ ''  ''])) =
     Inr ''make it  shorter, please.'' \<and>
   fst (get_editor_feedback ''Digest''
          (sample_world (\<lambda>_. body_of []) no_completion [''  Content approved as-is ''])) =
     Inr ''Content approved as-is'' \<and>
   fst (get_editor_feedback ''Digest'' (sample_world (\<lambda>_. body_of []) no_completion ['' ''])) =
     Inr ''Content approved as-is'' \<and>
   fst (get_editor_feedback ''Digest'' (sample_world (\<lambda>_. body_of []) no_completion [[]])) =
     Inr ''Content approved as-is'' \<and>
   polish_content sample_processor ''Digest'' ''Content approved as-is''
     (world_completion (completion_of ''Other'')) =
     (Inr ''Digest'', world_completion (completion_of ''Other''))"
proof -
  let ?world = "\<lambda>line. sample_world (\<lambda>_. body_of []) no_completion [line]"
  let ?remark = "[CHR 0x09, CHR '' ''] @ ''make it  shorter, please.'' @ ''  ''"
  let ?typed = "''  '' @ ''Content approved as-is'' @ '' ''"
  have stdin: "stdin (?world line) = line # []" for line
    by (simp add: sample_world_def)
  from editor_feedback_sentinel [of "?world ?remark" ?remark "[]" "''Digest''", OF stdin]
  have "\<forall>pre body post.
          ?remark = pre @ body @ post \<and> (\<forall>c\<in>set pre. isspace c) \<and> (\<forall>c\<in>set post. isspace c) \<and>
          body \<noteq> [] \<and> \<not> isspace (hd body) \<and> \<not> isspace (last body) \<longrightarrow>
            fst (get_editor_feedback ''Digest'' (?world ?remark)) = Inr body"
    by (rule conjunct1)
  from this [rule_format, where pre = "[CHR 0x09, CHR '' '']"
      and body = "''make it  shorter, please.''" and post = "''  ''"]
  have remark: "fst (get_editor_feedback ''Digest'' (?world ?remark)) =
     Inr ''make it  shorter, please.''"
    by (simp add: isspace_def)
  from editor_feedback_sentinel [of "?world ?typed" ?typed "[]" "''Digest''", OF stdin,
      THEN conjunct2, THEN conjunct2, THEN conjunct2]
  have "\<forall>pre post.
          ?typed = pre @ ''Content approved as-is'' @ post \<and>
          (\<forall>c\<in>set pre. isspace c) \<and> (\<forall>c\<in>set post. isspace c) \<longrightarrow>
            fst (get_editor_feedback ''Digest'' (?world ?typed)) = Inr ''Content approved as-is'' \<and>
            posts (snd (get_editor_feedback ''Digest'' (?world ?typed))) = posts (?world ?typed) \<and>
            (\<forall>self c v. polish_content self c ''Content approved as-is'' v = (Inr c, v))"
    .
  from this [rule_format, where pre = "''  ''" and post = "'' ''"]
  have "fst (get_editor_feedback ''Digest'' (?world ?typed)) = Inr ''Content approved as-is'' \<and>
        (\<forall>self c v. polish_content self c ''Content approved as-is'' v = (Inr c, v))"
    by (simp add: isspace_def)
  then have typed: "fst (get_editor_feedback ''Digest'' (?world ''  Content approved as-is '')) =
     Inr ''Content approved as-is''"
    and polish: "polish_content sample_processor ''Digest'' ''Content approved as-is''
     (world_completion (completion_of ''Other'')) =
     (Inr ''Digest'', world_completion (completion_of ''Other''))"
    by simp_all
  have space: "fst (get_editor_feedback ''Digest'' (?world '' '')) = Inr ''Content approved as-is''"
    using editor_feedback_sentinel [of "?world '' ''" "'' ''" "[]" "''Digest''", OF stdin,
        THEN conjunct2, THEN conjunct1]
    by (simp add: isspace_def)
  have empty_line: "fst (get_editor_feedback ''Digest'' (?world [])) = Inr ''Content approved as-is''"
    using editor_feedback_sentinel [of "?world []" "[]" "[]" "''Digest''", OF stdin,
        THEN conjunct2, THEN conjunct1]
    by simp
  from remark typed polish space empty_line show ?thesis by simp
qed

text \<open>Links of the declared type never make \<^verbatim>\<open>join\<close> raise.\<close>

lemma traverse_total:
  assumes "\<forall>x\<in>set xs. \<exists>y. f x = Inr y"
  shows "\<exists>ys. traverse f xs = Inr ys \<and> length ys = length xs"
  using assms by (induction xs) auto

lemma join_tags_typed:
  assumes "\<forall>t\<in>set ts. \<exists>s. t = JStr s"
  shows "\<exists>joined. join_tags ts = Inr joined"
proof -
  from assms have "\<forall>t\<in>set ts. \<exists>y. (case t of JStr s \<Rightarrow> Inr s | _ \<Rightarrow> Inl TypeError) = Inr y"
    by auto
  from traverse_total [OF this] show ?thesis by (auto simp: join_tags_def)
qed

lemma link_block_typed:
  assumes "\<forall>t\<in>set (link_tags l). \<exists>s. t = JStr s"
  shows "\<exists>b. link_block L l = Inr b"
  using join_tags_typed [OF assms] by (auto simp: link_block_def)

lemma structure_links_posts:
  assumes "traverse (link_block L) links = Inr blocks"
  shows "posts (snd (structure_links L self links w)) =
           posts w @ [completion_request (openrouter self)
                        (structure_prompt (length links) (str_join ''\<newline>'' blocks)) (7 / 10)]"
  using assms by (simp add: structure_links_def call_llm_posts)

lemma get_weekly_links_posts: "posts (snd (get_weekly_links L self list_id w)) = posts w"
  by (simp add: get_weekly_links_cases Let_def logger_def split: http_outcome.splits sum.splits)

lemma get_weekly_links_files: "files (snd (get_weekly_links L self list_id w)) = files w"
  by (simp add: get_weekly_links_cases Let_def logger_def split: http_outcome.splits sum.splits)

text \<open>The first statements of \<^verbatim>\<open>main\<close>, up to the fetch of line 317.\<close>

lemma bindW_Inr: "m w = (Inr x, w') \<Longrightarrow> bindW m f w = f x w'"
  by (simp add: bindW_def)

lemma bindW_Inl: "m w = (Inl e, w') \<Longrightarrow> bindW m f w = (Inl e, w')"
  by (simp add: bindW_def)

lemma workflow_start:
  assumes "LinkAceClient_init w = Inr linkace"
    and "HugoContentGenerator_init w = (Inr hugo_generator, w1)"
    and "lib_int L (getenv w1 ''TARGET_LIST_ID'' ''1'') = Some list_id"
    and "get_weekly_links L linkace list_id (py_print (Fetching list_id) w1) = (Inr links, w2)"
  shows "workflow L w =
     (if links = [] then (\<lambda>w. (Inr (), py_print NoLinksFound w))
     else
       bindW (\<lambda>w. (Inr (), py_print (FoundLinks (length links)) w)) (\<lambda>_.
       bindW (\<lambda>w. (Inr (), py_print Structuring w)) (\<lambda>_.
       bindW (structure_links L (ContentProcessor_init w) links) (\<lambda>structured_content.
       if structured_content = [] then (\<lambda>w. (Inr (), py_print StructuringFailed w))
       else
         bindW (\<lambda>w. (Inr (), py_print StartingReview w)) (\<lambda>_.
         bindW (get_editor_feedback structured_content) (\<lambda>feedback.
         bindW (\<lambda>w. (Inr (), py_print Polishing w)) (\<lambda>_.
         bindW (polish_content (ContentProcessor_init w) structured_content feedback) (\<lambda>final_content.
         bindW (\<lambda>w. (Inr (), py_print Generating w)) (\<lambda>_.
         bindW (save_content hugo_generator final_content (int (length links)))
           (\<lambda>output_file.
         bindW (\<lambda>w. (Inr (), py_print (Complete output_file) w)) (\<lambda>_.
         (\<lambda>w. (Inr (), py_print PreviewHint w))))))))))))) w2"
  using assms unfolding workflow_def
  by (simp add: bindW_def pure_def)

lemma main_no_links:
  assumes "LinkAceClient_init w = Inr linkace"
    and "HugoContentGenerator_init w = (Inr hugo_generator, w1)"
    and "lib_int L (getenv w1 ''TARGET_LIST_ID'' ''1'') = Some list_id"
    and "get_weekly_links L linkace list_id (py_print (Fetching list_id) w1) = (Inr [], w2)"
  shows "main L w = (Inr (), py_print NoLinksFound w2)"
  using workflow_start [OF assms] by (simp add: main_def)

lemma HugoContentGenerator_init_frame:
  assumes "HugoContentGenerator_init w = (r, w1)"
  shows "posts w1 = posts w" and "files w1 = files w"
  using assms by (auto simp: HugoContentGenerator_init_def Let_def split: if_splits)

lemma str_nat_0: "str_nat 0 = ''0''"
  by code_simp

lemma str_nat_2: "str_nat (Suc (Suc 0)) = ''2''"
  by code_simp

lemma zero_links_prompt:
  "structure_prompt 0 [] =
      ''\<newline>'' @
      ''        Create a well-structured weekly digest from these 0 links I've saved this week.\<newline>'' @
      ''\<newline>'' @
      ''        LINKS DATA:\<newline>'' @
      ''        \<newline>'' @
      ''\<newline>'' @
      ''        REQUIREMENTS:\<newline>'' @
      ''        1. Restructure the links as a easy to read list\<newline>'' @
      ''        2. write a general 300 words description of the week activity\<newline>'' @
      ''        3. Provide brief, insightful summaries inside the general description\<newline>'' @
      ''        4. each link must come from from LINKS_DATA\<newline>'' @
      ''        5. Use proper markdown formatting with headers, lists, and emphasis\<newline>'' @
      ''        6. Make it SEO-friendly with good structure\<newline>'' @
      ''        7. Keep tone professional but engaging, you have 20+ years experience of url link curation\<newline>'' @
      ''        8. Suggest relevant tags for the post\<newline>'' @
      ''        9. DO NOT create links not available in LINKS_DATA\<newline>'' @
      ''\<newline>'' @
      ''        FORMAT:\<newline>'' @
      ''        - Use bullet points or numbered lists for links\<newline>'' @
      ''        - Footer includes following links:\<newline>'' @
      ''          - shared.girard-davila.net linkace instance with stored links\<newline>'' @
      ''          - github.com/alx/weekly_news github repository of the code used to generate this newsletter\<newline>'' @
      ''\<newline>'' @
      ''        Make this content publication-ready for a technical blog.\<newline>'' @
      ''        ''"
  by (simp add: structure_prompt_def str_nat_0)

lemma two_link_blocks:
  "traverse (link_block reference_lib) [link_of fresh_stamp, link_of offset_stamp] =
     Inr [''**A**\<newline>URL: https://a.example\<newline>Description: None\<newline>Tags: x, y\<newline>Date: 2024-01-14T10:00:00.000000Z\<newline>---\<newline>'',
          ''**A**\<newline>URL: https://a.example\<newline>Description: None\<newline>Tags: x, y\<newline>Date: 2024-01-08T02:00:00+05:00\<newline>---\<newline>'']"
  by (simp add: link_block_def link_of_def join_tags_def fmt_def reference_lib_def str_atom_def
      fresh_stamp_def offset_stamp_def)

lemma two_links_prompt:
  "structure_prompt (length [link_of fresh_stamp, link_of offset_stamp])
     (str_join ''\<newline>''
        [''**A**\<newline>URL: https://a.example\<newline>Description: None\<newline>Tags: x, y\<newline>Date: 2024-01-14T10:00:00.000000Z\<newline>---\<newline>'',
         ''**A**\<newline>URL: https://a.example\<newline>Description: None\<newline>Tags: x, y\<newline>Date: 2024-01-08T02:00:00+05:00\<newline>---\<newline>'']) =
      ''\<newline>'' @
      ''        Create a well-structured weekly digest from these 2 links I've saved this week.\<newline>'' @
      ''\<newline>'' @
      ''        LINKS DATA:\<newline>'' @
      ''        **A**\<newline>'' @
      ''URL: https://a.example\<newline>'' @
      ''Description: None\<newline>'' @
      ''Tags: x, y\<newline>'' @
      ''Date: 2024-01-14T10:00:00.000000Z\<newline>'' @
      ''---\<newline>'' @
      ''\<newline>'' @
      ''**A**\<newline>'' @
      ''URL: https://a.example\<newline>'' @
      ''Description: None\<newline>'' @
      ''Tags: x, y\<newline>'' @
      ''Date: 2024-01-08T02:00:00+05:00\<newline>'' @
      ''---\<newline>'' @
      ''\<newline>'' @
      ''\<newline>'' @
      ''        REQUIREMENTS:\<newline>'' @
      ''        1. Restructure the links as a easy to read list\<newline>'' @
      ''        2. write a general 300 words description of the week activity\<newline>'' @
      ''        3. Provide brief, insightful summaries inside the general description\<newline>'' @
      ''        4. each link must come from from LINKS_DATA\<newline>'' @
      ''        5. Use proper markdown formatting with headers, lists, and emphasis\<newline>'' @
      ''        6. Make it SEO-friendly with good structure\<newline>'' @
      ''        7. Keep tone professional but engaging, you have 20+ years experience of url link curation\<newline>'' @
      ''        8. Suggest relevant tags for the post\<newline>'' @
      ''        9. DO NOT create links not available in LINKS_DATA\<newline>'' @
      ''\<newline>'' @
      ''        FORMAT:\<newline>'' @
      ''        - Use bullet points or numbered lists for links\<newline>'' @
      ''        - Footer includes following links:\<newline>'' @
      ''          - shared.girard-davila.net linkace instance with stored links\<newline>'' @
      ''          - github.com/alx/weekly_news github repository of the code used to generate this newsletter\<newline>'' @
      ''\<newline>'' @
      ''        Make this content publication-ready for a technical blog.\<newline>'' @
      ''        ''"
  by (simp add: structure_prompt_def str_nat_2)

text \<open>
  C9: \<^verbatim>\<open>structure_links\<close> sends exactly one request to the completion service for every
  list of links whose tags are strings (the declared \<^verbatim>\<open>List[str]\<close>), the empty list
  included: it has no guard of its own. The request goes to \<^verbatim>\<open>/chat/completions\<close> with the
  payload of lines 101 to 113, and its user message is the prompt of lines 177 to 201 made
  from the number of links and their blocks; for no links it is the prompt that announces
  \<^verbatim>\<open>these 0 links\<close>, with nothing under \<^verbatim>\<open>LINKS DATA\<close>. In \<^verbatim>\<open>main\<close>, an empty result of
  \<^verbatim>\<open>get_weekly_links\<close> ends the workflow at line 321 with the notice that no links were
  found, and no request has been sent.
\<close>

theorem structure_links_one_call:
  "(\<forall>links :: Link list. (\<forall>l\<in>set links. \<forall>t\<in>set (link_tags l). \<exists>s. t = JStr s) \<longrightarrow>
      (\<exists>blocks rq. traverse (link_block L) links = Inr blocks \<and>
         posts (snd (structure_links L self links w)) = posts w @ [rq] \<and>
         post_url rq = openrouter_base_url (openrouter self) @ ''/chat/completions'' \<and>
         post_headers rq = openrouter_headers (openrouter self) \<and>
         payload_model rq = openrouter_model (openrouter self) \<and>
         payload_system rq = ''You are an expert content curator and technical writer.'' \<and>
         payload_user rq = structure_prompt (length links) (str_join ''\<newline>'' blocks) \<and>
         payload_temperature rq = 7 / 10 \<and>
         payload_max_tokens rq = 2048 \<and>
         payload_top_p rq = 95 / 100 \<and>
         post_timeout rq = 30)) \<and>
   (\<exists>rq. posts (snd (structure_links L self [] w)) = posts w @ [rq] \<and>
      payload_user rq =
      ''\<newline>'' @
      ''        Create a well-structured weekly digest from these 0 links I've saved this week.\<newline>'' @
      ''\<newline>'' @
      ''        LINKS DATA:\<newline>'' @
      ''        \<newline>'' @
      ''\<newline>'' @
      ''        REQUIREMENTS:\<newline>'' @
      ''        1. Restructure the links as a easy to read list\<newline>'' @
      ''        2. write a general 300 words description of the week activity\<newline>'' @
      ''        3. Provide brief, insightful summaries inside the general description\<newline>'' @
      ''        4. each link must come from from LINKS_DATA\<newline>'' @
      ''        5. Use proper markdown formatting with headers, lists, and emphasis\<newline>'' @
      ''        6. Make it SEO-friendly with good structure\<newline>'' @
      ''        7. Keep tone professional but engaging, you have 20+ years experience of url link curation\<newline>'' @
      ''        8. Suggest relevant tags for the post\<newline>'' @
      ''        9. DO NOT create links not available in LINKS_DATA\<newline>'' @
      ''\<newline>'' @
      ''        FORMAT:\<newline>'' @
      ''        - Use bullet points or numbered lists for links\<newline>'' @
      ''        - Footer includes following links:\<newline>'' @
      ''          - shared.girard-davila.net linkace instance with stored links\<newline>'' @
      ''          - github.com/alx/weekly_news github repository of the code used to generate this newsletter\<newline>'' @
      ''\<newline>'' @
      ''        Make this content publication-ready for a technical blog.\<newline>'' @
      ''        '') \<and>
   (\<forall>linkace hugo_generator w1 list_id w2.
      LinkAceClient_init w = Inr linkace \<and>
      HugoContentGenerator_init w = (Inr hugo_generator, w1) \<and>
      lib_int L (getenv w1 ''TARGET_LIST_ID'' ''1'') = Some list_id \<and>
      get_weekly_links L linkace list_id (py_print (Fetching list_id) w1) = (Inr [], w2) \<longrightarrow>
        main L w = (Inr (), py_print NoLinksFound w2) \<and>
        posts (snd (main L w)) = posts w)"
proof -
  have sent: "\<exists>blocks rq. traverse (link_block L) links = Inr blocks \<and>
         posts (snd (structure_links L self links w)) = posts w @ [rq] \<and>
         post_url rq = openrouter_base_url (openrouter self) @ ''/chat/completions'' \<and>
         post_headers rq = openrouter_headers (openrouter self) \<and>
         payload_model rq = openrouter_model (openrouter self) \<and>
         payload_system rq = ''You are an expert content curator and technical writer.'' \<and>
         payload_user rq = structure_prompt (length links) (str_join ''\<newline>'' blocks) \<and>
         payload_temperature rq = 7 / 10 \<and>
         payload_max_tokens rq = 2048 \<and>
         payload_top_p rq = 95 / 100 \<and>
         post_timeout rq = 30"
    if typed: "\<forall>l\<in>set links. \<forall>t\<in>set (link_tags l). \<exists>s. t = JStr s" for links :: "Link list"
  proof -
    from typed have "\<forall>l\<in>set links. \<exists>b. link_block L l = Inr b"
      using link_block_typed by blast
    from traverse_total [OF this] obtain blocks where
      blocks: "traverse (link_block L) links = Inr blocks"
      by blast
    let ?rq = "completion_request (openrouter self)
                 (structure_prompt (length links) (str_join ''\<newline>'' blocks)) (7 / 10)"
    have "posts (snd (structure_links L self links w)) = posts w @ [?rq]"
      by (rule structure_links_posts [OF blocks])
    moreover have "post_url ?rq = openrouter_base_url (openrouter self) @ ''/chat/completions''"
      "post_headers ?rq = openrouter_headers (openrouter self)"
      "payload_model ?rq = openrouter_model (openrouter self)"
      "payload_system ?rq = ''You are an expert content curator and technical writer.''"
      "payload_user ?rq = structure_prompt (length links) (str_join ''\<newline>'' blocks)"
      "payload_temperature ?rq = 7 / 10"
      "payload_max_tokens ?rq = 2048"
      "payload_top_p ?rq = 95 / 100"
      "post_timeout ?rq = 30"
      by (simp_all add: completion_request_def)
    ultimately show ?thesis using blocks by blast
  qed
  let ?rq0 = "completion_request (openrouter self) (structure_prompt 0 []) (7 / 10)"
  have "posts (snd (structure_links L self [] w)) = posts w @ [?rq0]"
    using structure_links_posts [of L "[]" "[]" self w] by simp
  moreover have "payload_user ?rq0 = structure_prompt 0 []"
    by (simp add: completion_request_def)
  ultimately have none: "\<exists>rq. posts (snd (structure_links L self [] w)) = posts w @ [rq] \<and>
      payload_user rq =
      ''\<newline>'' @
      ''        Create a well-structured weekly digest from these 0 links I've saved this week.\<newline>'' @
      ''\<newline>'' @
      ''        LINKS DATA:\<newline>'' @
      ''        \<newline>'' @
      ''\<newline>'' @
      ''        REQUIREMENTS:\<newline>'' @
      ''        1. Restructure the links as a easy to read list\<newline>'' @
      ''        2. write a general 300 words description of the week activity\<newline>'' @
      ''        3. Provide brief, insightful summaries inside the general description\<newline>'' @
      ''        4. each link must come from from LINKS_DATA\<newline>'' @
      ''        5. Use proper markdown formatting with headers, lists, and emphasis\<newline>'' @
      ''        6. Make it SEO-friendly with good structure\<newline>'' @
      ''        7. Keep tone professional but engaging, you have 20+ years experience of url link curation\<newline>'' @
      ''        8. Suggest relevant tags for the post\<newline>'' @
      ''        9. DO NOT create links not available in LINKS_DATA\<newline>'' @
      ''\<newline>'' @
      ''        FORMAT:\<newline>'' @
      ''        - Use bullet points or numbered lists for links\<newline>'' @
      ''        - Footer includes following links:\<newline>'' @
      ''          - shared.girard-davila.net linkace instance with stored links\<newline>'' @
      ''          - github.com/alx/weekly_news github repository of the code used to generate this newsletter\<newline>'' @
      ''\<newline>'' @
      ''        Make this content publication-ready for a technical blog.\<newline>'' @
      ''        ''"
    unfolding zero_links_prompt by blast
  have stops: "main L w = (Inr (), py_print NoLinksFound w2) \<and> posts (snd (main L w)) = posts w"
    if a: "LinkAceClient_init w = Inr linkace \<and>
      HugoContentGenerator_init w = (Inr hugo_generator, w1) \<and>
      lib_int L (getenv w1 ''TARGET_LIST_ID'' ''1'') = Some list_id \<and>
      get_weekly_links L linkace list_id (py_print (Fetching list_id) w1) = (Inr [], w2)"
    for linkace hugo_generator w1 list_id w2
  proof -
    from a have m: "main L w = (Inr (), py_print NoLinksFound w2)"
      by (intro main_no_links) auto
    from a have "posts w2 = posts (py_print (Fetching list_id) w1)"
      using get_weekly_links_posts [of L linkace list_id "py_print (Fetching list_id) w1"] by simp
    also have "\<dots> = posts w"
      using a HugoContentGenerator_init_frame(1) [of w "Inr hugo_generator" w1]
      by (simp add: py_print_def)
    finally have "posts (snd (main L w)) = posts w"
      using m by (simp add: py_print_def)
    with m show ?thesis by simp
  qed
  from sent none stops show ?thesis by blast
qed

lemma sample_base_url: "str_rstrip (CHR ''/'') ''https://links.example.org/'' = ''https://links.example.org''"
  by code_simp

lemma sample_env_lookup [simp]:
  "sample_env ''LINKACE_BASE_URL'' = Some ''https://links.example.org/''"
  "sample_env ''LINKACE_API_KEY'' = Some ''secret''"
  "sample_env ''HUGO_CONTENT_PATH'' = None"
  "sample_env ''TARGET_LIST_ID'' = None"
  "sample_env ''OUTPUT_FILENAME_PREFIX'' = None"
  "sample_env ''EDITOR_NAME'' = None"
  "sample_env ''OPENROUTER_API_KEY'' = None"
  "sample_env ''OPENROUTER_MODEL'' = None"
  by (simp_all add: sample_env_def)

lemma sample_client_init: "LinkAceClient_init (sample_world b c l) = Inr sample_client"
  by (simp add: LinkAceClient_init_def sample_base_url sample_client_def bearer_def)

lemma default_content_path:
  "path_of_str ''./content/posts'' = \<lparr>anchor = [], parts = [''content'', ''posts'']\<rparr>"
  by code_simp

lemma default_content_path_str: "path_str (content_path sample_generator) = ''content/posts''"
  by code_simp

lemma sample_generator_init:
  "HugoContentGenerator_init (sample_world b c l) =
     (Inr sample_generator,
      (sample_world b c l)\<lparr>dirs := dirs (sample_world b c l) \<union> with_parents (content_path sample_generator)\<rparr>)"
  using default_content_path_str
  by (simp add: HugoContentGenerator_init_def getenv_def default_content_path Let_def
      sample_generator_def)

lemma default_list_id: "int_of_str ''1'' = Some 1"
  by code_simp

text \<open>
  Witness for C9: two links, no link at all, and the workflow on a response without
  records.
\<close>

theorem structure_links_one_call_witness:
  "map payload_user (posts (snd (structure_links reference_lib sample_processor
         [link_of fresh_stamp, link_of offset_stamp]
         (world_completion (completion_of ''Digest''))))) =
     [''\<newline>'' @
      ''        Create a well-structured weekly digest from these 2 links I've saved this week.\<newline>'' @
      ''\<newline>'' @
      ''        LINKS DATA:\<newline>'' @
      ''        **A**\<newline>'' @
      ''URL: https://a.example\<newline>'' @
      ''Description: None\<newline>'' @
      ''Tags: x, y\<newline>'' @
      ''Date: 2024-01-14T10:00:00.000000Z\<newline>'' @
      ''---\<newline>'' @
      ''\<newline>'' @
      ''**A**\<newline>'' @
      ''URL: https://a.example\<newline>'' @
      ''Description: None\<newline>'' @
      ''Tags: x, y\<newline>'' @
      ''Date: 2024-01-08T02:00:00+05:00\<newline>'' @
      ''---\<newline>'' @
      ''\<newline>'' @
      ''\<newline>'' @
      ''        REQUIREMENTS:\<newline>'' @
      ''        1. Restructure the links as a easy to read list\<newline>'' @
      ''        2. write a general 300 words description of the week activity\<newline>'' @
      ''        3. Provide brief, insightful summaries inside the general description\<newline>'' @
      ''        4. each link must come from from LINKS_DATA\<newline>'' @
      ''        5. Use proper markdown formatting with headers, lists, and emphasis\<newline>'' @
      ''        6. Make it SEO-friendly with good structure\<newline>'' @
      ''        7. Keep tone professional but engaging, you have 20+ years experience of url link curation\<newline>'' @
      ''        8. Suggest relevant tags for the post\<newline>'' @
      ''        9. DO NOT create links not available in LINKS_DATA\<newline>'' @
      ''\<newline>'' @
      ''        FORMAT:\<newline>'' @
      ''        - Use bullet points or numbered lists for links\<newline>'' @
      ''        - Footer includes following links:\<newline>'' @
      ''          - shared.girard-davila.net linkace instance with stored links\<newline>'' @
      ''          - github.com/alx/weekly_news github repository of the code used to generate this newsletter\<newline>'' @
      ''\<newline>'' @
      ''        Make this content publication-ready for a technical blog.\<newline>'' @
      ''        ''] \<and>
   map post_url (posts (snd (structure_links reference_lib sample_processor
         [link_of fresh_stamp, link_of offset_stamp]
         (world_completion (completion_of ''Digest''))))) =
     [''https://openrouter.ai/api/v1/chat/completions''] \<and>
   map payload_temperature (posts (snd (structure_links reference_lib sample_processor
         [link_of fresh_stamp, link_of offset_stamp]
         (world_completion (completion_of ''Digest''))))) =
     [7 / 10] \<and>
   map payload_user (posts (snd (structure_links reference_lib sample_processor []
         (world_completion (completion_of ''Digest''))))) =
     [''\<newline>'' @
      ''        Create a well-structured weekly digest from these 0 links I've saved this week.\<newline>'' @
      ''\<newline>'' @
      ''        LINKS DATA:\<newline>'' @
      ''        \<newline>'' @
      ''\<newline>'' @
      ''        REQUIREMENTS:\<newline>'' @
      ''        1. Restructure the links as a easy to read list\<newline>'' @
      ''        2. write a general 300 words description of the week activity\<newline>'' @
      ''        3. Provide brief, insightful summaries inside the general description\<newline>'' @
      ''        4. each link must come from from LINKS_DATA\<newline>'' @
      ''        5. Use proper markdown formatting with headers, lists, and emphasis\<newline>'' @
      ''        6. Make it SEO-friendly with good structure\<newline>'' @
      ''        7. Keep tone professional but engaging, you have 20+ years experience of url link curation\<newline>'' @
      ''        8. Suggest relevant tags for the post\<newline>'' @
      ''        9. DO NOT create links not available in LINKS_DATA\<newline>'' @
      ''\<newline>'' @
      ''        FORMAT:\<newline>'' @
      ''        - Use bullet points or numbered lists for links\<newline>'' @
      ''        - Footer includes following links:\<newline>'' @
      ''          - shared.girard-davila.net linkace instance with stored links\<newline>'' @
      ''          - github.com/alx/weekly_news github repository of the code used to generate this newsletter\<newline>'' @
      ''\<newline>'' @
      ''        Make this content publication-ready for a technical blog.\<newline>'' @
      ''        ''] \<and>
   fst (main reference_lib world_no_records) = Inr () \<and>
   posts (snd (main reference_lib world_no_records)) = []"
proof -
  let ?w = "world_completion (completion_of ''Digest'')"
  let ?links = "[link_of fresh_stamp, link_of offset_stamp]"
  note facts = structure_links_one_call [of reference_lib sample_processor]
  have typed: "\<forall>l\<in>set ?links. \<forall>t\<in>set (link_tags l). \<exists>s. t = JStr s"
    by (simp add: link_of_def)
  have start: "posts ?w = []"
    by (simp add: world_completion_def)
  from facts [of ?w, THEN conjunct1, THEN spec, THEN mp, OF typed]
  obtain blocks rq where blocks: "traverse (link_block reference_lib) ?links = Inr blocks"
    and sent: "posts (snd (structure_links reference_lib sample_processor ?links ?w)) = posts ?w @ [rq]"
    and url: "post_url rq = openrouter_base_url (openrouter sample_processor) @ ''/chat/completions''"
    and user: "payload_user rq = structure_prompt (length ?links) (str_join ''\<newline>'' blocks)"
    and temperature: "payload_temperature rq = 7 / 10"
    by blast
  from blocks have "blocks =
     [''**A**\<newline>URL: https://a.example\<newline>Description: None\<newline>Tags: x, y\<newline>Date: 2024-01-14T10:00:00.000000Z\<newline>---\<newline>'',
      ''**A**\<newline>URL: https://a.example\<newline>Description: None\<newline>Tags: x, y\<newline>Date: 2024-01-08T02:00:00+05:00\<newline>---\<newline>'']"
    unfolding two_link_blocks by simp
  with user have user2: "payload_user rq =
     ''\<newline>'' @
     ''        Create a well-structured weekly digest from these 2 links I've saved this week.\<newline>'' @
     ''\<newline>'' @
     ''        LINKS DATA:\<newline>'' @
     ''        **A**\<newline>'' @
     ''URL: https://a.example\<newline>'' @
     ''Description: None\<newline>'' @
     ''Tags: x, y\<newline>'' @
     ''Date: 2024-01-14T10:00:00.000000Z\<newline>'' @
     ''---\<newline>'' @
     ''\<newline>'' @
     ''**A**\<newline>'' @
     ''URL: https://a.example\<newline>'' @
     ''Description: None\<newline>'' @
     ''Tags: x, y\<newline>'' @
     ''Date: 2024-01-08T02:00:00+05:00\<newline>'' @
     ''---\<newline>'' @
     ''\<newline>'' @
     ''\<newline>'' @
     ''        REQUIREMENTS:\<newline>'' @
     ''        1. Restructure the links as a easy to read list\<newline>'' @
     ''        2. write a general 300 words description of the week activity\<newline>'' @
     ''        3. Provide brief, insightful summaries inside the general description\<newline>'' @
     ''        4. each link must come from from LINKS_DATA\<newline>'' @
     ''        5. Use proper markdown formatting with headers, lists, and emphasis\<newline>'' @
     ''        6. Make it SEO-friendly with good structure\<newline>'' @
     ''        7. Keep tone professional but engaging, you have 20+ years experience of url link curation\<newline>'' @
     ''        8. Suggest relevant tags for the post\<newline>'' @
     ''        9. DO NOT create links not available in LINKS_DATA\<newline>'' @
     ''\<newline>'' @
     ''        FORMAT:\<newline>'' @
     ''        - Use bullet points or numbered lists for links\<newline>'' @
     ''        - Footer includes following links:\<newline>'' @
     ''          - shared.girard-davila.net linkace instance with stored links\<newline>'' @
     ''          - github.com/alx/weekly_news github repository of the code used to generate this newsletter\<newline>'' @
     ''\<newline>'' @
     ''        Make this content publication-ready for a technical blog.\<newline>'' @
     ''        ''"
    by (simp only: two_links_prompt)
  from url have url2: "post_url rq = ''https://openrouter.ai/api/v1/chat/completions''"
    by (simp add: sample_processor_def sample_openrouter_def OpenRouterClient_init_def)
  from sent start have posts2: "posts (snd (structure_links reference_lib sample_processor ?links ?w)) = [rq]"
    by simp
  have two: "map payload_user (posts (snd (structure_links reference_lib sample_processor ?links ?w))) =
     [''\<newline>'' @
      ''        Create a well-structured weekly digest from these 2 links I've saved this week.\<newline>'' @
      ''\<newline>'' @
      ''        LINKS DATA:\<newline>'' @
      ''        **A**\<newline>'' @
      ''URL: https://a.example\<newline>'' @
      ''Description: None\<newline>'' @
      ''Tags: x, y\<newline>'' @
      ''Date: 2024-01-14T10:00:00.000000Z\<newline>'' @
      ''---\<newline>'' @
      ''\<newline>'' @
      ''**A**\<newline>'' @
      ''URL: https://a.example\<newline>'' @
      ''Description: None\<newline>'' @
      ''Tags: x, y\<newline>'' @
      ''Date: 2024-01-08T02:00:00+05:00\<newline>'' @
      ''---\<newline>'' @
      ''\<newline>'' @
      ''\<newline>'' @
      ''        REQUIREMENTS:\<newline>'' @
      ''        1. Restructure the links as a easy to read list\<newline>'' @
      ''        2. write a general 300 words description of the week activity\<newline>'' @
      ''        3. Provide brief, insightful summaries inside the general description\<newline>'' @
      ''        4. each link must come from from LINKS_DATA\<newline>'' @
      ''        5. Use proper markdown formatting with headers, lists, and emphasis\<newline>'' @
      ''        6. Make it SEO-friendly with good structure\<newline>'' @
      ''        7. Keep tone professional but engaging, you have 20+ years experience of url link curation\<newline>'' @
      ''        8. Suggest relevant tags for the post\<newline>'' @
      ''        9. DO NOT create links not available in LINKS_DATA\<newline>'' @
      ''\<newline>'' @
      ''        FORMAT:\<newline>'' @
      ''        - Use bullet points or numbered lists for links\<newline>'' @
      ''        - Footer includes following links:\<newline>'' @
      ''          - shared.girard-davila.net linkace instance with stored links\<newline>'' @
      ''          - github.com/alx/weekly_news github repository of the code used to generate this newsletter\<newline>'' @
      ''\<newline>'' @
      ''        Make this content publication-ready for a technical blog.\<newline>'' @
      ''        '']"
    "map post_url (posts (snd (structure_links reference_lib sample_processor ?links ?w))) =
     [''https://openrouter.ai/api/v1/chat/completions'']"
    "map payload_temperature (posts (snd (structure_links reference_lib sample_processor ?links ?w))) =
     [7 / 10]"
    unfolding posts2 using user2 url2 temperature by simp_all
  from facts [of ?w, THEN conjunct2, THEN conjunct1]
  obtain rq0 where "posts (snd (structure_links reference_lib sample_processor [] ?w)) = posts ?w @ [rq0]"
    and "payload_user rq0 =
      ''\<newline>'' @
      ''        Create a well-structured weekly digest from these 0 links I've saved this week.\<newline>'' @
      ''\<newline>'' @
      ''        LINKS DATA:\<newline>'' @
      ''        \<newline>'' @
      ''\<newline>'' @
      ''        REQUIREMENTS:\<newline>'' @
      ''        1. Restructure the links as a easy to read list\<newline>'' @
      ''        2. write a general 300 words description of the week activity\<newline>'' @
      ''        3. Provide brief, insightful summaries inside the general description\<newline>'' @
      ''        4. each link must come from from LINKS_DATA\<newline>'' @
      ''        5. Use proper markdown formatting with headers, lists, and emphasis\<newline>'' @
      ''        6. Make it SEO-friendly with good structure\<newline>'' @
      ''        7. Keep tone professional but engaging, you have 20+ years experience of url link curation\<newline>'' @
      ''        8. Suggest relevant tags for the post\<newline>'' @
      ''        9. DO NOT create links not available in LINKS_DATA\<newline>'' @
      ''\<newline>'' @
      ''        FORMAT:\<newline>'' @
      ''        - Use bullet points or numbered lists for links\<newline>'' @
      ''        - Footer includes following links:\<newline>'' @
      ''          - shared.girard-davila.net linkace instance with stored links\<newline>'' @
      ''          - github.com/alx/weekly_news github repository of the code used to generate this newsletter\<newline>'' @
      ''\<newline>'' @
      ''        Make this content publication-ready for a technical blog.\<newline>'' @
      ''        ''"
    by blast
  with start have none: "map payload_user (posts (snd (structure_links reference_lib sample_processor [] ?w))) =
     [''\<newline>'' @
      ''        Create a well-structured weekly digest from these 0 links I've saved this week.\<newline>'' @
      ''\<newline>'' @
      ''        LINKS DATA:\<newline>'' @
      ''        \<newline>'' @
      ''\<newline>'' @
      ''        REQUIREMENTS:\<newline>'' @
      ''        1. Restructure the links as a easy to read list\<newline>'' @
      ''        2. write a general 300 words description of the week activity\<newline>'' @
      ''        3. Provide brief, insightful summaries inside the general description\<newline>'' @
      ''        4. each link must come from from LINKS_DATA\<newline>'' @
      ''        5. Use proper markdown formatting with headers, lists, and emphasis\<newline>'' @
      ''        6. Make it SEO-friendly with good structure\<newline>'' @
      ''        7. Keep tone professional but engaging, you have 20+ years experience of url link curation\<newline>'' @
      ''        8. Suggest relevant tags for the post\<newline>'' @
      ''        9. DO NOT create links not available in LINKS_DATA\<newline>'' @
      ''\<newline>'' @
      ''        FORMAT:\<newline>'' @
      ''        - Use bullet points or numbered lists for links\<newline>'' @
      ''        - Footer includes following links:\<newline>'' @
      ''          - shared.girard-davila.net linkace instance with stored links\<newline>'' @
      ''          - github.com/alx/weekly_news github repository of the code used to generate this newsletter\<newline>'' @
      ''\<newline>'' @
      ''        Make this content publication-ready for a technical blog.\<newline>'' @
      ''        '']"
    by simp
  let ?w1 = "world_no_records\<lparr>dirs := dirs world_no_records \<union> with_parents (content_path sample_generator)\<rparr>"
  have init: "LinkAceClient_init world_no_records = Inr sample_client"
    "HugoContentGenerator_init world_no_records = (Inr sample_generator, ?w1)"
    by (simp_all add: world_no_records_def sample_client_init sample_generator_init)
  have lid: "lib_int reference_lib (getenv ?w1 ''TARGET_LIST_ID'' ''1'') = Some 1"
    by (simp add: reference_lib_def getenv_def world_no_records_def default_list_id)
  have "fst (get_weekly_links reference_lib sample_client 1 (py_print (Fetching 1) ?w1)) =
          read_links reference_lib (one_week_ago_of sample_instant) [] []"
    using get_weekly_links_body [of "py_print (Fetching 1) ?w1" sample_client 1
        "JObj [(''data'', JArr [])]" "[]" reference_lib]
    by (simp add: py_print_def world_no_records_def body_of_def sample_clock_late)
  then obtain w2 where
    fetch: "get_weekly_links reference_lib sample_client 1 (py_print (Fetching 1) ?w1) = (Inr [], w2)"
    by (cases "get_weekly_links reference_lib sample_client 1 (py_print (Fetching 1) ?w1)") simp
  from facts [of world_no_records, THEN conjunct2, THEN conjunct2] init lid fetch
  have "main reference_lib world_no_records = (Inr (), py_print NoLinksFound w2) \<and>
        posts (snd (main reference_lib world_no_records)) = posts world_no_records"
    by blast
  then have a: "main reference_lib world_no_records = (Inr (), py_print NoLinksFound w2)"
    and b: "posts (snd (main reference_lib world_no_records)) = posts world_no_records"
    by blast+
  from a have stop: "fst (main reference_lib world_no_records) = Inr ()" by simp
  from b have quiet: "posts (snd (main reference_lib world_no_records)) = []"
    by (simp add: world_no_records_def)
  show ?thesis
    apply (intro conjI)
         apply (rule two(1))
        apply (rule two(2))
       apply (rule two(3))
      apply (rule none)
     apply (rule stop)
    apply (rule quiet)
    done
qed

subsection \<open>\<^verbatim>\<open>HugoContentGenerator\<close>\<close>

lemma frontmatter_text_ticks [simp]:
  "frontmatter_text (w\<lparr>ticks := k\<rparr>) = frontmatter_text w"
  by (simp add: frontmatter_text_def getenv_def fun_eq_iff)

lemma getenv_ticks [simp]: "getenv (w\<lparr>ticks := k\<rparr>) = getenv w"
  by (simp add: getenv_def fun_eq_iff)

lemma save_content_cases:
  "save_content self content links_count w =
     (let p = path_str (joinpath (content_path self)
                (strftime_date (local_now (clock w (Suc (ticks w)))) @ ''-'' @
                 getenv w ''OUTPUT_FILENAME_PREFIX'' ''weekly-links'' @ ''.md''));
          full = frontmatter_text w (local_now (clock w (Suc (Suc (ticks w)))))
                   (''Weekly Links Digest - Week of '' @ strftime_title (local_now (clock w (ticks w))))
                   digest_tags @ meta_content_text links_count content;
          w3 = w\<lparr>ticks := Suc (Suc (Suc (ticks w)))\<rparr>
      in if os_refuses w p then (Inl OSError, w3)
         else (Inr p, logger (LogSaved p) (w3\<lparr>files := (files w)(p \<mapsto> full)\<rparr>)))"
  by (simp add: save_content_def generate_frontmatter_def read_clock_def Let_def)

text \<open>A file name without a slash is one component of the path.\<close>

lemma is_digit_digit: "d < 10 \<Longrightarrow> is_digit (digit d)"
  by (simp add: is_digit_def digit_def Let_def)

lemma str_nat_digits: "c \<in> set (str_nat n) \<Longrightarrow> is_digit c"
proof (induction n rule: str_nat.induct)
  case (1 n)
  show ?case
  proof (cases "n < 10")
    case True
    with "1.prems" show ?thesis by (simp add: str_nat.simps [of n] is_digit_digit)
  next
    case False
    with "1.prems" have "c \<in> set (str_nat (n div 10)) \<or> c = digit (n mod 10)"
      by (auto simp: str_nat.simps [of n])
    with False "1.IH" show ?thesis by (auto simp: is_digit_digit)
  qed
qed

lemma slash_not_digit: "\<not> is_digit (CHR ''/'')"
  by (simp add: is_digit_def)

lemma pad2_digits: "c \<in> set (pad2 n) \<Longrightarrow> is_digit c \<or> c = CHR ''0''"
  by (auto simp: pad2_def dest: str_nat_digits split: if_splits)

lemma strftime_date_no_slash: "CHR ''/'' \<notin> set (strftime_date c)"
  using slash_not_digit
  by (auto simp: strftime_date_def dest: str_nat_digits pad2_digits)

lemma split_on_absent: "c \<notin> set s \<Longrightarrow> split_on c s = [s]"
  by (induction s) auto

lemma path_of_str_name:
  assumes "CHR ''/'' \<notin> set s" and "s \<noteq> []" and "s \<noteq> ''.''"
  shows "path_of_str s = \<lparr>anchor = [], parts = [s]\<rparr>"
proof -
  from assms(1,2) have "take 1 s \<noteq> ''/''" "take 2 s \<noteq> ''//''"
    by (cases s; cases "tl s"; auto)+
  with assms show ?thesis by (simp add: path_of_str_def split_on_absent)
qed

lemma str_join_snoc: "xs \<noteq> [] \<Longrightarrow> str_join sep (xs @ [s]) = str_join sep xs @ sep @ s"
  by (induction sep xs rule: str_join.induct) auto

lemma joinpath_name:
  assumes "CHR ''/'' \<notin> set s" and "s \<noteq> []" and "s \<noteq> ''.''" and "parts p \<noteq> []"
  shows "path_str (joinpath p s) = path_str p @ ''/'' @ s"
  using assms by (simp add: joinpath_def path_of_str_name path_str_def str_join_snoc Let_def)

text \<open>The digits of \<^verbatim>\<open>%Y\<close>, \<^verbatim>\<open>%m\<close> and \<^verbatim>\<open>%d\<close>.\<close>

lemma zero_char: "char_of (48 :: nat) = CHR ''0''"
  by code_simp

lemma str_nat_small: "n < 10 \<Longrightarrow> str_nat n = [char_of (48 + n)]"
  by (simp add: str_nat.simps [of n] digit_def)

lemma str_nat_two:
  assumes "10 \<le> n" and "n < 100"
  shows "str_nat n = [char_of (48 + n div 10), char_of (48 + n mod 10)]"
proof -
  from assms have "n div 10 < 10" by simp
  with assms show ?thesis
    by (simp add: str_nat.simps [of n] str_nat_small digit_def)
qed

lemma str_nat_three:
  assumes "100 \<le> n" and "n < 1000"
  shows "str_nat n =
           [char_of (48 + n div 100), char_of (48 + n div 10 mod 10), char_of (48 + n mod 10)]"
proof -
  from assms have "10 \<le> n div 10" "n div 10 < 100" by simp_all
  from str_nat_two [OF this] assms show ?thesis
    by (simp add: str_nat.simps [of n] digit_def div_mult2_eq [symmetric])
qed

lemma str_nat_four:
  assumes "1000 \<le> n" and "n \<le> 9999"
  shows "str_nat n =
           [char_of (48 + n div 1000), char_of (48 + n div 100 mod 10),
            char_of (48 + n div 10 mod 10), char_of (48 + n mod 10)]"
proof -
  from assms have "100 \<le> n div 10" "n div 10 < 1000" by simp_all
  from str_nat_three [OF this] assms show ?thesis
    by (simp add: str_nat.simps [of n] digit_def div_mult2_eq [symmetric])
qed

lemma pad2_two:
  assumes "n < 100"
  shows "pad2 n = [char_of (48 + n div 10), char_of (48 + n mod 10)]"
proof (cases "n < 10")
  case True
  then show ?thesis by (simp add: pad2_def str_nat_small zero_char)
next
  case False
  with assms show ?thesis by (simp add: pad2_def str_nat_two)
qed

text \<open>
  C7: the path that \<^verbatim>\<open>save_content\<close> writes and returns is made from the configured
  directory, the date of the clock reading of line 278 and the configured prefix, and from
  nothing else. For a directory with at least one component, a date with a four-digit year
  and a prefix without a slash it reads \<^verbatim>\<open><directory>/<YYYY-MM-DD>-<prefix>.md\<close>: the digits
  of the year, the month and the day of that reading, and the value of
  \<^verbatim>\<open>OUTPUT_FILENAME_PREFIX\<close>, or \<^verbatim>\<open>weekly-links\<close> when it is not set. The call changes the file
  at that path and no other file: the file then holds the header block and the content. A
  later call on the same day with the same prefix, where the operating system still allows
  the path, returns the same path without raising, and the file then holds the text of
  that call in place of what it held.
\<close>

theorem save_content_path:
  assumes "save_content self content links_count w = (Inr p, w1)"
  shows "p = path_str (joinpath (content_path self)
               (strftime_date (local_now (clock w (Suc (ticks w)))) @ ''-'' @
                getenv w ''OUTPUT_FILENAME_PREFIX'' ''weekly-links'' @ ''.md'')) \<and>
         (\<forall>y m d prefix.
            parts (content_path self) \<noteq> [] \<and>
            year (local_now (clock w (Suc (ticks w)))) = y \<and>
            month (local_now (clock w (Suc (ticks w)))) = m \<and>
            day (local_now (clock w (Suc (ticks w)))) = d \<and>
            1000 \<le> y \<and> y \<le> 9999 \<and> m \<le> 12 \<and> d \<le> 31 \<and>
            prefix = (case environ w ''OUTPUT_FILENAME_PREFIX'' of
                        Some v \<Rightarrow> v | None \<Rightarrow> ''weekly-links'') \<and>
            CHR ''/'' \<notin> set prefix \<longrightarrow>
            p = path_str (content_path self) @ ''/'' @
                [char_of (48 + y div 1000), char_of (48 + y div 100 mod 10),
                 char_of (48 + y div 10 mod 10), char_of (48 + y mod 10)] @ ''-'' @
                [char_of (48 + m div 10), char_of (48 + m mod 10)] @ ''-'' @
                [char_of (48 + d div 10), char_of (48 + d mod 10)] @ ''-'' @
                prefix @ ''.md'') \<and>
         files w1 =
           (files w)(p \<mapsto>
              frontmatter_text w (local_now (clock w (Suc (Suc (ticks w)))))
                (''Weekly Links Digest - Week of '' @ strftime_title (local_now (clock w (ticks w))))
                digest_tags @
              meta_content_text links_count content) \<and>
         (\<forall>v c2 n2.
            year (local_now (clock v (Suc (ticks v)))) = year (local_now (clock w (Suc (ticks w)))) \<and>
            month (local_now (clock v (Suc (ticks v)))) = month (local_now (clock w (Suc (ticks w)))) \<and>
            day (local_now (clock v (Suc (ticks v)))) = day (local_now (clock w (Suc (ticks w)))) \<and>
            environ v ''OUTPUT_FILENAME_PREFIX'' = environ w ''OUTPUT_FILENAME_PREFIX'' \<and>
            \<not> os_refuses v p \<longrightarrow>
            (\<exists>v2. save_content self c2 n2 v = (Inr p, v2) \<and>
               files v2 =
                 (files v)(p \<mapsto>
                    frontmatter_text v (local_now (clock v (Suc (Suc (ticks v)))))
                      (''Weekly Links Digest - Week of '' @
                       strftime_title (local_now (clock v (ticks v))))
                      digest_tags @
                    meta_content_text n2 c2)))"
proof -
  let ?name = "\<lambda>w. strftime_date (local_now (clock w (Suc (ticks w)))) @ ''-'' @
                 getenv w ''OUTPUT_FILENAME_PREFIX'' ''weekly-links'' @ ''.md''"
  let ?path = "\<lambda>w. path_str (joinpath (content_path self) (?name w))"
  let ?text = "\<lambda>w n c. frontmatter_text w (local_now (clock w (Suc (Suc (ticks w)))))
              (''Weekly Links Digest - Week of '' @ strftime_title (local_now (clock w (ticks w))))
              digest_tags @ meta_content_text n c"
  from assms have p: "p = ?path w"
    and w1: "w1 = logger (LogSaved p)
       (w\<lparr>ticks := Suc (Suc (Suc (ticks w))),
          files := (files w)(p \<mapsto> ?text w links_count content)\<rparr>)"
    by (auto simp: save_content_cases Let_def split: if_splits)
  have plain: "p = path_str (content_path self) @ ''/'' @ ?name w"
    if "parts (content_path self) \<noteq> []"
      and "CHR ''/'' \<notin> set (getenv w ''OUTPUT_FILENAME_PREFIX'' ''weekly-links'')"
  proof -
    have "CHR ''/'' \<notin> set (?name w)" using that(2) strftime_date_no_slash by auto
    moreover have "?name w \<noteq> []" "?name w \<noteq> ''.''" by auto
    ultimately show ?thesis unfolding p using that(1) by (rule joinpath_name)
  qed
  have digits: "p = path_str (content_path self) @ ''/'' @
                [char_of (48 + y div 1000), char_of (48 + y div 100 mod 10),
                 char_of (48 + y div 10 mod 10), char_of (48 + y mod 10)] @ ''-'' @
                [char_of (48 + m div 10), char_of (48 + m mod 10)] @ ''-'' @
                [char_of (48 + d div 10), char_of (48 + d mod 10)] @ ''-'' @
                prefix @ ''.md''"
    if h: "parts (content_path self) \<noteq> [] \<and>
            year (local_now (clock w (Suc (ticks w)))) = y \<and>
            month (local_now (clock w (Suc (ticks w)))) = m \<and>
            day (local_now (clock w (Suc (ticks w)))) = d \<and>
            1000 \<le> y \<and> y \<le> 9999 \<and> m \<le> 12 \<and> d \<le> 31 \<and>
            prefix = (case environ w ''OUTPUT_FILENAME_PREFIX'' of
                        Some v \<Rightarrow> v | None \<Rightarrow> ''weekly-links'') \<and>
            CHR ''/'' \<notin> set prefix"
    for y m d prefix
  proof -
    from h have prefix: "getenv w ''OUTPUT_FILENAME_PREFIX'' ''weekly-links'' = prefix"
      by (simp add: getenv_def)
    from h have "m < 100" "d < 100" by simp_all
    with h have date: "strftime_date (local_now (clock w (Suc (ticks w)))) =
        [char_of (48 + y div 1000), char_of (48 + y div 100 mod 10),
         char_of (48 + y div 10 mod 10), char_of (48 + y mod 10)] @ ''-'' @
        [char_of (48 + m div 10), char_of (48 + m mod 10)] @ ''-'' @
        [char_of (48 + d div 10), char_of (48 + d mod 10)]"
      by (simp add: strftime_date_def str_nat_four pad2_two)
    from h have "CHR ''/'' \<notin> set (getenv w ''OUTPUT_FILENAME_PREFIX'' ''weekly-links'')"
      unfolding prefix by blast
    with h have "p = path_str (content_path self) @ ''/'' @ ?name w"
      by (intro plain) blast
    then show ?thesis unfolding date prefix by simp
  qed
  have first: "files w1 = (files w)(p \<mapsto> ?text w links_count content)"
    unfolding w1 by (simp add: logger_def)
  have again: "\<exists>v2. save_content self c2 n2 v = (Inr p, v2) \<and>
                 files v2 = (files v)(p \<mapsto> ?text v n2 c2)"
    if h: "year (local_now (clock v (Suc (ticks v)))) = year (local_now (clock w (Suc (ticks w)))) \<and>
            month (local_now (clock v (Suc (ticks v)))) = month (local_now (clock w (Suc (ticks w)))) \<and>
            day (local_now (clock v (Suc (ticks v)))) = day (local_now (clock w (Suc (ticks w)))) \<and>
            environ v ''OUTPUT_FILENAME_PREFIX'' = environ w ''OUTPUT_FILENAME_PREFIX'' \<and>
            \<not> os_refuses v p"
    for v c2 n2
  proof -
    from h have same: "strftime_date (local_now (clock v (Suc (ticks v)))) =
        strftime_date (local_now (clock w (Suc (ticks w))))"
      "getenv v ''OUTPUT_FILENAME_PREFIX'' ''weekly-links'' =
        getenv w ''OUTPUT_FILENAME_PREFIX'' ''weekly-links''"
      by (simp_all add: strftime_date_def getenv_def)
    have "?path v = p" unfolding p by (simp only: same)
    with h show ?thesis
      by (simp add: save_content_cases [of self c2 n2 v] Let_def logger_def)
  qed
  from p digits first again show ?thesis by blast
qed

lemma sample_date: "strftime_date (local_now sample_instant) = ''2024-01-15''"
  by code_simp

lemma sample_path:
  "path_str (joinpath (content_path sample_generator) ''2024-01-15-weekly-links.md'') =
     ''content/posts/2024-01-15-weekly-links.md''"
  by code_simp

lemma sample_save_path:
  "clock w = (\<lambda>_. sample_instant) \<Longrightarrow> environ w = sample_env \<Longrightarrow> os_refuses w = (\<lambda>_. False) \<Longrightarrow>
     fst (save_content sample_generator content n w) = Inr ''content/posts/2024-01-15-weekly-links.md''"
  by (simp add: save_content_cases Let_def getenv_def sample_date sample_path)

lemma sample_title: "strftime_title (local_now sample_instant) = ''January 15, 2024''"
  by code_simp

lemma sample_stamp: "strftime_stamp (local_now sample_instant) = ''2024-01-15T09:05:00''"
  by code_simp

lemma digest_tags_json:
  \<open>json_dumps digest_tags = ''["weekly-digest", "curated-links", "reading-list"]''\<close>
  by code_simp

lemma world_no_records_sel [simp]:
  "clock world_no_records n = sample_instant"
  "environ world_no_records = sample_env"
  "ticks world_no_records = 0"
  by (simp_all add: world_no_records_def)

lemma default_path_text:
  "path_str (content_path sample_generator) @ ''/'' @
     [char_of (48 + (2024 :: nat) div 1000), char_of (48 + (2024 :: nat) div 100 mod 10),
      char_of (48 + (2024 :: nat) div 10 mod 10), char_of (48 + (2024 :: nat) mod 10)] @ ''-'' @
     [char_of (48 + (1 :: nat) div 10), char_of (48 + (1 :: nat) mod 10)] @ ''-'' @
     [char_of (48 + (15 :: nat) div 10), char_of (48 + (15 :: nat) mod 10)] @ ''-'' @
     ''weekly-links'' @ ''.md'' =
   ''content/posts/2024-01-15-weekly-links.md''"
  by code_simp

lemma configured_path_text:
  "path_str (content_path configured_generator) @ ''/'' @
     [char_of (48 + (2025 :: nat) div 1000), char_of (48 + (2025 :: nat) div 100 mod 10),
      char_of (48 + (2025 :: nat) div 10 mod 10), char_of (48 + (2025 :: nat) mod 10)] @ ''-'' @
     [char_of (48 + (12 :: nat) div 10), char_of (48 + (12 :: nat) mod 10)] @ ''-'' @
     [char_of (48 + (3 :: nat) div 10), char_of (48 + (3 :: nat) mod 10)] @ ''-'' @
     ''digest'' @ ''.md'' =
   ''/srv/site/content/2025-12-03-digest.md''"
  by code_simp

lemma configured_content_path:
  "path_of_str ''/srv/site/content'' = content_path configured_generator"
  by code_simp

lemma str_int_1: "str_int 1 = ''1''"
  by code_simp

lemma str_int_2: "str_int 2 = ''2''"
  by code_simp

lemma sample_file_text:
  \<open>clock w = (\<lambda>_. sample_instant) \<Longrightarrow> environ w = sample_env \<Longrightarrow>
     frontmatter_text w (local_now (clock w k))
       (''Weekly Links Digest - Week of '' @ strftime_title (local_now (clock w j))) digest_tags =
     ''---\<newline>'' @
     ''title: "Weekly Links Digest - Week of January 15, 2024"\<newline>'' @
     ''date: 2024-01-15T09:05:00\<newline>'' @
     ''draft: false\<newline>'' @
     ''description: "Weekly curated links and insights from my reading list"\<newline>'' @
     ''categories: ["Weekly Digest", "Curated Links"]\<newline>'' @
     ''tags: ["weekly-digest", "curated-links", "reading-list"]\<newline>'' @
     ''author: "Editor"\<newline>'' @
     ''---\<newline>'' @
     ''\<newline>''\<close>
  by (simp add: frontmatter_text_def getenv_def sample_title sample_stamp digest_tags_json)

text \<open>
  Witness for C7: two calls on 2024-01-15 with the default directory and prefix, and a call
  on 2025-12-03 with the directory \<^verbatim>\<open>/srv/site/content\<close> and the prefix \<^verbatim>\<open>digest\<close>.
\<close>

theorem save_content_path_witness:
  \<open>fst (save_content sample_generator ''one'' 1 world_no_records) =
     Inr ''content/posts/2024-01-15-weekly-links.md'' \<and>
   files (snd (save_content sample_generator ''one'' 1 world_no_records)) =
     [''content/posts/2024-01-15-weekly-links.md'' \<mapsto>
      ''---\<newline>'' @
      ''title: "Weekly Links Digest - Week of January 15, 2024"\<newline>'' @
      ''date: 2024-01-15T09:05:00\<newline>'' @
      ''draft: false\<newline>'' @
      ''description: "Weekly curated links and insights from my reading list"\<newline>'' @
      ''categories: ["Weekly Digest", "Curated Links"]\<newline>'' @
      ''tags: ["weekly-digest", "curated-links", "reading-list"]\<newline>'' @
      ''author: "Editor"\<newline>'' @
      ''---\<newline>'' @
      ''\<newline>'' @
      ''\<newline>'' @
      ''*This week I discovered 1 interesting links. Here's what caught my attention:*\<newline>'' @
      ''\<newline>'' @
      ''one\<newline>'' @
      ''\<newline>'' @
      ''---\<newline>'' @
      ''*This digest was automatically generated from my [LinkAce](https://linkace.org) bookmark collection and curated with AI assistance.*\<newline>''] \<and>
   fst (save_content sample_generator ''two'' 2
          (snd (save_content sample_generator ''one'' 1 world_no_records))) =
     Inr ''content/posts/2024-01-15-weekly-links.md'' \<and>
   files (snd (save_content sample_generator ''two'' 2
          (snd (save_content sample_generator ''one'' 1 world_no_records)))) =
     [''content/posts/2024-01-15-weekly-links.md'' \<mapsto>
      ''---\<newline>'' @
      ''title: "Weekly Links Digest - Week of January 15, 2024"\<newline>'' @
      ''date: 2024-01-15T09:05:00\<newline>'' @
      ''draft: false\<newline>'' @
      ''description: "Weekly curated links and insights from my reading list"\<newline>'' @
      ''categories: ["Weekly Digest", "Curated Links"]\<newline>'' @
      ''tags: ["weekly-digest", "curated-links", "reading-list"]\<newline>'' @
      ''author: "Editor"\<newline>'' @
      ''---\<newline>'' @
      ''\<newline>'' @
      ''\<newline>'' @
      ''*This week I discovered 2 interesting links. Here's what caught my attention:*\<newline>'' @
      ''\<newline>'' @
      ''two\<newline>'' @
      ''\<newline>'' @
      ''---\<newline>'' @
      ''*This digest was automatically generated from my [LinkAce](https://linkace.org) bookmark collection and curated with AI assistance.*\<newline>''] \<and>
   fst (HugoContentGenerator_init world_configured) = Inr configured_generator \<and>
   fst (save_content configured_generator ''one'' 1 world_configured) =
     Inr ''/srv/site/content/2025-12-03-digest.md''\<close>
proof -
  let ?p = "''content/posts/2024-01-15-weekly-links.md''"
  have "\<exists>p w1. save_content sample_generator ''one'' 1 world_no_records = (Inr p, w1)"
    by (simp add: save_content_cases Let_def world_no_records_def sample_world_def)
  then obtain p w1 where run: "save_content sample_generator ''one'' 1 world_no_records = (Inr p, w1)"
    by blast
  note facts = save_content_path [OF run]
  have "parts (content_path sample_generator) \<noteq> [] \<and>
        year (local_now (clock world_no_records (Suc (ticks world_no_records)))) = 2024 \<and>
        month (local_now (clock world_no_records (Suc (ticks world_no_records)))) = 1 \<and>
        day (local_now (clock world_no_records (Suc (ticks world_no_records)))) = 15 \<and>
        1000 \<le> (2024 :: nat) \<and> (2024 :: nat) \<le> 9999 \<and> (1 :: nat) \<le> 12 \<and> (15 :: nat) \<le> 31 \<and>
        ''weekly-links'' = (case environ world_no_records ''OUTPUT_FILENAME_PREFIX'' of
                        Some v \<Rightarrow> v | None \<Rightarrow> ''weekly-links'') \<and>
        CHR ''/'' \<notin> set ''weekly-links''"
    by (simp add: sample_generator_def sample_instant_def)
  from facts [THEN conjunct2, THEN conjunct1, rule_format, OF this]
  have p: "p = ?p"
    by (simp only: default_path_text)
  have w1: "clock w1 = (\<lambda>_. sample_instant)" "environ w1 = sample_env"
    "os_refuses w1 = (\<lambda>_. False)"
    using run
    by (auto simp: save_content_cases Let_def logger_def world_no_records_def sample_world_def
        split: if_splits)
  have w0: "clock world_no_records = (\<lambda>_. sample_instant)" "environ world_no_records = sample_env"
    "files world_no_records = Map.empty"
    by (simp_all add: world_no_records_def sample_world_def)
  from facts [THEN conjunct2, THEN conjunct2, THEN conjunct1]
  have file1: \<open>files w1 =
     [?p \<mapsto>
      ''---\<newline>'' @
      ''title: "Weekly Links Digest - Week of January 15, 2024"\<newline>'' @
      ''date: 2024-01-15T09:05:00\<newline>'' @
      ''draft: false\<newline>'' @
      ''description: "Weekly curated links and insights from my reading list"\<newline>'' @
      ''categories: ["Weekly Digest", "Curated Links"]\<newline>'' @
      ''tags: ["weekly-digest", "curated-links", "reading-list"]\<newline>'' @
      ''author: "Editor"\<newline>'' @
      ''---\<newline>'' @
      ''\<newline>'' @
      ''\<newline>'' @
      ''*This week I discovered 1 interesting links. Here's what caught my attention:*\<newline>'' @
      ''\<newline>'' @
      ''one\<newline>'' @
      ''\<newline>'' @
      ''---\<newline>'' @
      ''*This digest was automatically generated from my [LinkAce](https://linkace.org) bookmark collection and curated with AI assistance.*\<newline>'']\<close>
    unfolding p sample_file_text [OF w0(1,2)] w0(3)
    by (simp add: meta_content_text_def str_int_1)
  have "year (local_now (clock w1 (Suc (ticks w1)))) =
          year (local_now (clock world_no_records (Suc (ticks world_no_records)))) \<and>
        month (local_now (clock w1 (Suc (ticks w1)))) =
          month (local_now (clock world_no_records (Suc (ticks world_no_records)))) \<and>
        day (local_now (clock w1 (Suc (ticks w1)))) =
          day (local_now (clock world_no_records (Suc (ticks world_no_records)))) \<and>
        environ w1 ''OUTPUT_FILENAME_PREFIX'' = environ world_no_records ''OUTPUT_FILENAME_PREFIX'' \<and>
        \<not> os_refuses w1 p"
    by (simp add: w1 w0)
  from facts [THEN conjunct2, THEN conjunct2, THEN conjunct2, rule_format, OF this,
      where ?c2.0 = "''two''" and ?n2.0 = 2]
  obtain v2 where run2: "save_content sample_generator ''two'' 2 w1 = (Inr p, v2)"
    and "files v2 =
           (files w1)(p \<mapsto>
              frontmatter_text w1 (local_now (clock w1 (Suc (Suc (ticks w1)))))
                (''Weekly Links Digest - Week of '' @ strftime_title (local_now (clock w1 (ticks w1))))
                digest_tags @
              meta_content_text 2 ''two'')"
    by blast
  then have file2: \<open>files v2 =
     [?p \<mapsto>
      ''---\<newline>'' @
      ''title: "Weekly Links Digest - Week of January 15, 2024"\<newline>'' @
      ''date: 2024-01-15T09:05:00\<newline>'' @
      ''draft: false\<newline>'' @
      ''description: "Weekly curated links and insights from my reading list"\<newline>'' @
      ''categories: ["Weekly Digest", "Curated Links"]\<newline>'' @
      ''tags: ["weekly-digest", "curated-links", "reading-list"]\<newline>'' @
      ''author: "Editor"\<newline>'' @
      ''---\<newline>'' @
      ''\<newline>'' @
      ''\<newline>'' @
      ''*This week I discovered 2 interesting links. Here's what caught my attention:*\<newline>'' @
      ''\<newline>'' @
      ''two\<newline>'' @
      ''\<newline>'' @
      ''---\<newline>'' @
      ''*This digest was automatically generated from my [LinkAce](https://linkace.org) bookmark collection and curated with AI assistance.*\<newline>'']\<close>
    unfolding p sample_file_text [OF w1(1,2)] file1
    by (simp add: meta_content_text_def str_int_2)
  have "\<exists>p3 w3. save_content configured_generator ''one'' 1 world_configured = (Inr p3, w3)"
    by (simp add: save_content_cases Let_def world_configured_def sample_world_def)
  then obtain p3 w3 where
    run3: "save_content configured_generator ''one'' 1 world_configured = (Inr p3, w3)"
    by blast
  have "parts (content_path configured_generator) \<noteq> [] \<and>
        year (local_now (clock world_configured (Suc (ticks world_configured)))) = 2025 \<and>
        month (local_now (clock world_configured (Suc (ticks world_configured)))) = 12 \<and>
        day (local_now (clock world_configured (Suc (ticks world_configured)))) = 3 \<and>
        1000 \<le> (2025 :: nat) \<and> (2025 :: nat) \<le> 9999 \<and> (12 :: nat) \<le> 12 \<and> (3 :: nat) \<le> 31 \<and>
        ''digest'' = (case environ world_configured ''OUTPUT_FILENAME_PREFIX'' of
                        Some v \<Rightarrow> v | None \<Rightarrow> ''weekly-links'') \<and>
        CHR ''/'' \<notin> set ''digest''"
    by (simp add: configured_generator_def world_configured_def other_instant_def
        configured_env_def)
  from save_content_path [OF run3, THEN conjunct2, THEN conjunct1, rule_format, OF this]
  have p3: "p3 = ''/srv/site/content/2025-12-03-digest.md''"
    by (simp only: configured_path_text)
  have init: "fst (HugoContentGenerator_init world_configured) = Inr configured_generator"
    by (simp add: HugoContentGenerator_init_def getenv_def world_configured_def sample_world_def
        configured_env_def configured_content_path Let_def)
  from run p have a: "fst (save_content sample_generator ''one'' 1 world_no_records) = Inr ?p"
    and s1: "snd (save_content sample_generator ''one'' 1 world_no_records) = w1"
    by simp_all
  from run2 p have b: "fst (save_content sample_generator ''two'' 2 w1) = Inr ?p"
    and s2: "snd (save_content sample_generator ''two'' 2 w1) = v2"
    by simp_all
  from run3 p3 have c: "fst (save_content configured_generator ''one'' 1 world_configured) =
     Inr ''/srv/site/content/2025-12-03-digest.md''"
    by simp
  show ?thesis
    unfolding s1 s2
    apply (intro conjI)
         apply (rule a)
        apply (rule file1)
       apply (rule b)
      apply (rule file2)
     apply (rule init)
    apply (rule c)
    done
qed

text \<open>
  C8 fails on the code in one field. \<^verbatim>\<open>generate_frontmatter\<close> formats \<^verbatim>\<open>datetime.now()\<close>, a
  naive value, with \<^verbatim>\<open>%Y-%m-%dT%H:%M:%S%z\<close>, and \<^verbatim>\<open>%z\<close> of a naive value is the empty string:
  the date field carries no UTC offset. The other fields are as the claim says. The header
  block for the local time 2024-01-15 09:05:00, with no author configured:
\<close>

theorem frontmatter_date_without_offset:
  \<open>fst (generate_frontmatter sample_generator
          (''Weekly Links Digest - Week of '' @ strftime_title (local_now sample_instant))
          digest_tags world_no_records) =
     ''---\<newline>'' @
     ''title: "Weekly Links Digest - Week of January 15, 2024"\<newline>'' @
     ''date: 2024-01-15T09:05:00\<newline>'' @
     ''draft: false\<newline>'' @
     ''description: "Weekly curated links and insights from my reading list"\<newline>'' @
     ''categories: ["Weekly Digest", "Curated Links"]\<newline>'' @
     ''tags: ["weekly-digest", "curated-links", "reading-list"]\<newline>'' @
     ''author: "Editor"\<newline>'' @
     ''---\<newline>'' @
     ''\<newline>''\<close>
  by (simp add: generate_frontmatter_def read_clock_def frontmatter_text_def getenv_def
      sample_title sample_stamp digest_tags_json)

subsection \<open>The workflow\<close>

lemma get_weekly_links_answer:
  assumes "linkace_service w (gets w @ [links_request self list_id]) = Body data"
    and "week_us \<le> utc_us (clock w (ticks w))"
    and "response_records data = Inr items"
    and "read_links L (one_week_ago_of (clock w (ticks w))) items [] = Inr links"
  shows "get_weekly_links L self list_id w =
           (Inr links, logger (LogFound (length links) list_id)
              (w\<lparr>ticks := Suc (ticks w), gets := gets w @ [links_request self list_id]\<rparr>))"
  using assms by (simp add: get_weekly_links_cases Let_def)

lemma fresh_record_read:
  "read_link reference_lib (one_week_ago_of sample_instant) (record_of fresh_stamp) =
     Inr (Some (link_of fresh_stamp))"
  by (simp add: read_link_record_of [where dt = "\<lparr>wall = 63840823200000000, utcoffset = Some 0\<rparr>"]
      reference_lib_def fresh_parse)

lemma fresh_link_block: "\<exists>b. traverse (link_block reference_lib) [link_of fresh_stamp] = Inr [b]"
  by (simp add: link_block_def join_tags_def link_of_def)

lemma feedback_strip: "str_strip ''make it shorter'' = ''make it shorter''"
  by code_simp

text \<open>What each step leaves as it was.\<close>

lemma same_setting_refl [simp]: "same_setting w w"
  by (simp add: same_setting_def)

lemma same_setting_trans: "same_setting w v \<Longrightarrow> same_setting v u \<Longrightarrow> same_setting w u"
  by (simp add: same_setting_def)

lemma same_setting_print: "same_setting w v \<Longrightarrow> same_setting w (py_print x v)"
  by (simp add: same_setting_def py_print_def)

lemma call_llm_frame:
  "same_setting w (snd (call_llm self prompt temperature w))"
  "stdin (snd (call_llm self prompt temperature w)) = stdin w"
  "files (snd (call_llm self prompt temperature w)) = files w"
  by (simp_all add: call_llm_def requests_post_def handle_failure_def Let_def logger_def
      same_setting_def split: http_outcome.splits sum.splits exn.splits option.splits)

lemma structure_links_frame:
  "same_setting w (snd (structure_links L self links w))"
  "stdin (snd (structure_links L self links w)) = stdin w"
  "files (snd (structure_links L self links w)) = files w"
  by (simp_all add: structure_links_def call_llm_frame split: sum.splits)

lemma structure_links_result:
  assumes "traverse (link_block L) links = Inr blocks"
  shows "fst (structure_links L self links w) =
           fst (call_llm (openrouter self)
                  (structure_prompt (length links) (str_join ''\<newline>'' blocks)) (7 / 10) w)"
  using assms by (simp add: structure_links_def)

lemma get_editor_feedback_frame:
  "same_setting w (snd (get_editor_feedback content w))"
  "files (snd (get_editor_feedback content w)) = files w"
  by (simp_all add: get_editor_feedback_def py_print_def Let_def same_setting_def split: list.splits)

lemma polish_content_frame:
  "same_setting w (snd (polish_content self content feedback w))"
  "files (snd (polish_content self content feedback w)) = files w"
  by (simp_all add: polish_content_def call_llm_frame)

lemma polish_content_revision:
  assumes "feedback \<noteq> approved"
  shows "fst (polish_content self content feedback w) =
           fst (call_llm (openrouter self) (polish_prompt content feedback) (1 / 2) w)"
    and "posts (snd (polish_content self content feedback w)) =
           posts w @ [completion_request (openrouter self) (polish_prompt content feedback) (1 / 2)]"
  using assms by (simp_all add: polish_content_def call_llm_posts)

lemma save_content_posts: "posts (snd (save_content self content n w)) = posts w"
  by (simp add: save_content_cases Let_def logger_def)

lemma save_content_written:
  assumes "\<not> os_refuses w (path_str (joinpath (content_path self)
                (strftime_date (local_now (clock w (Suc (ticks w)))) @ ''-'' @
                 getenv w ''OUTPUT_FILENAME_PREFIX'' ''weekly-links'' @ ''.md'')))"
  shows "\<exists>front. files (snd (save_content self content n w))
            (path_str (joinpath (content_path self)
                (strftime_date (local_now (clock w (Suc (ticks w)))) @ ''-'' @
                 getenv w ''OUTPUT_FILENAME_PREFIX'' ''weekly-links'' @ ''.md''))) =
          Some (front @ meta_content_text n content)"
  using assms by (simp add: save_content_cases Let_def logger_def)

lemma bindW_print: "bindW (\<lambda>w. (Inr (), py_print x w)) f w = f () (py_print x w)"
  by (simp add: bindW_def)

lemma pair_of_fst: "fst p = a \<Longrightarrow> p = (a, snd p)"
  by (cases p) simp

text \<open>
  The two guards of \<^verbatim>\<open>main\<close>: with no links (line 319) and with an empty first digest
  (line 328) the workflow prints its notice and returns, and no file has been written.
\<close>

lemma main_stops_without_links:
  assumes "LinkAceClient_init w = Inr linkace"
    and "HugoContentGenerator_init w = (Inr hugo_generator, w1)"
    and "lib_int L (getenv w1 ''TARGET_LIST_ID'' ''1'') = Some list_id"
    and "get_weekly_links L linkace list_id (py_print (Fetching list_id) w1) = (Inr [], w2)"
  shows "main L w = (Inr (), py_print NoLinksFound w2)" and "files w2 = files w"
proof -
  show "main L w = (Inr (), py_print NoLinksFound w2)"
    using assms by (rule main_no_links)
  have "files w2 = files (py_print (Fetching list_id) w1)"
    using get_weekly_links_files [of L linkace list_id "py_print (Fetching list_id) w1"] assms(4)
    by simp
  then show "files w2 = files w"
    using HugoContentGenerator_init_frame(2) [OF assms(2)] by (simp add: py_print_def)
qed

lemma main_stops_without_digest:
  assumes "LinkAceClient_init w = Inr linkace"
    and "HugoContentGenerator_init w = (Inr hugo_generator, w1)"
    and "lib_int L (getenv w1 ''TARGET_LIST_ID'' ''1'') = Some list_id"
    and "get_weekly_links L linkace list_id (py_print (Fetching list_id) w1) = (Inr links, w2)"
    and "links \<noteq> []"
    and "structure_links L (ContentProcessor_init w) links
           (py_print Structuring (py_print (FoundLinks (length links)) w2)) = (Inr [], w3)"
  shows "main L w = (Inr (), py_print StructuringFailed w3)" and "files w3 = files w"
proof -
  note flow = workflow_start [OF assms(1-4)]
  show "main L w = (Inr (), py_print StructuringFailed w3)"
    unfolding main_def flow using assms(5)
    by (simp only: if_False bindW_print prod.case sum.case if_True simp_thms
        bindW_Inr [where m = "structure_links L (ContentProcessor_init w) links"
          and w = "py_print Structuring (py_print (FoundLinks (length links)) w2)", OF assms(6)])
  have "files w3 = files (py_print Structuring (py_print (FoundLinks (length links)) w2))"
    using structure_links_frame(3) [of L "ContentProcessor_init w" links
        "py_print Structuring (py_print (FoundLinks (length links)) w2)"] assms(6)
    by simp
  also have "\<dots> = files w2" by (simp add: py_print_def)
  also have "\<dots> = files (py_print (Fetching list_id) w1)"
    using get_weekly_links_files [of L linkace list_id "py_print (Fetching list_id) w1"] assms(4)
    by simp
  also have "\<dots> = files w"
    using HugoContentGenerator_init_frame(2) [OF assms(2)] by (simp add: py_print_def)
  finally show "files w3 = files w" .
qed

text \<open>
  C5 fails on the code in its last part. The two guards stop the workflow when no link was
  found and when the first digest is empty, but the result of \<^verbatim>\<open>polish_content\<close> (line 336)
  is written without a check. Here one record is inside the window, the completion
  service answers the first request with \<^verbatim>\<open>Digest\<close>, the reviewer asks for a change and
  the second request times out: \<^verbatim>\<open>polish_content\<close> returns the empty string, and \<^verbatim>\<open>main\<close>
  runs to its last line and writes a file whose digest is empty.
\<close>

theorem failed_revision_is_published:
  "fst (main reference_lib world_failed_revision) = Inr () \<and>
   (\<exists>front. files (snd (main reference_lib world_failed_revision))
              ''content/posts/2024-01-15-weekly-links.md'' =
            Some (front @ meta_content_text 1 [])) \<and>
   last (stdout (snd (main reference_lib world_failed_revision))) = PreviewHint \<and>
   length (posts (snd (main reference_lib world_failed_revision))) = 2"
proof -
  let ?W = world_failed_revision
  let ?p = "''content/posts/2024-01-15-weekly-links.md''"
  let ?proc = "ContentProcessor_init ?W"
  let ?link = "link_of fresh_stamp"
  let ?w1 = "?W\<lparr>dirs := dirs ?W \<union> with_parents (content_path sample_generator)\<rparr>"
  let ?w = "py_print (Fetching 1) ?w1"
  let ?w2 = "logger (LogFound (length [?link]) 1)
              (?w\<lparr>ticks := Suc (ticks ?w), gets := gets ?w @ [links_request sample_client 1]\<rparr>)"
  have init: "LinkAceClient_init ?W = Inr sample_client"
    "HugoContentGenerator_init ?W = (Inr sample_generator, ?w1)"
    by (simp_all add: world_failed_revision_def sample_client_init sample_generator_init)
  have lid: "lib_int reference_lib (getenv ?w1 ''TARGET_LIST_ID'' ''1'') = Some 1"
    by (simp add: reference_lib_def getenv_def world_failed_revision_def default_list_id)
  have fetch: "get_weekly_links reference_lib sample_client 1 ?w = (Inr [?link], ?w2)"
    by (rule get_weekly_links_answer [where data = "JObj [(''data'', JArr [record_of fresh_stamp])]"
          and items = "[record_of fresh_stamp]"])
       (simp_all add: py_print_def world_failed_revision_def body_of_def sample_clock_late
          fresh_record_read)
  note flow = workflow_start [OF init lid fetch]
  obtain b where blocks: "traverse (link_block reference_lib) [?link] = Inr [b]"
    using fresh_link_block by blast

  define w3 where "w3 = py_print Structuring (py_print (FoundLinks (length [?link])) ?w2)"
  have w3: "same_setting ?W w3" "posts w3 = []" "stdin w3 = [''make it shorter'']" "files w3 = Map.empty"
    by (simp_all add: w3_def py_print_def logger_def same_setting_def world_failed_revision_def
        sample_world_def)
  have setting: "completion_service v = revision_fails" "environ v = sample_env"
    "clock v = (\<lambda>_. sample_instant)" "os_refuses v = (\<lambda>_. False)"
    if "same_setting ?W v" for v
    using that by (simp_all add: same_setting_def world_failed_revision_def sample_world_def)

  define w4 where "w4 = snd (structure_links reference_lib ?proc [?link] w3)"
  have "fst (structure_links reference_lib ?proc [?link] w3) = Inr ''Digest''"
    by (simp add: structure_links_result [OF blocks] call_llm_result setting(1) [OF w3(1)] w3(2)
        revision_fails_def completion_of_def read_completion_of digest_strip)
  then have s4: "structure_links reference_lib ?proc [?link] w3 = (Inr ''Digest'', w4)"
    unfolding w4_def by (rule pair_of_fst)
  have w4: "same_setting ?W w4" "length (posts w4) = 1" "stdin w4 = [''make it shorter'']"
    "files w4 = Map.empty"
    using same_setting_trans [OF w3(1) structure_links_frame(1)] w3
    by (simp_all add: w4_def structure_links_posts [OF blocks] structure_links_frame)

  define w5 where "w5 = py_print StartingReview w4"
  define w6 where "w6 = snd (get_editor_feedback ''Digest'' w5)"
  have "fst (get_editor_feedback ''Digest'' w5) = Inr ''make it shorter''"
    using get_editor_feedback_result [of w5 "''make it shorter''" "[]" "''Digest''"] w4(3)
    by (simp add: w5_def py_print_def feedback_strip)
  then have s6: "get_editor_feedback ''Digest'' w5 = (Inr ''make it shorter'', w6)"
    unfolding w6_def by (rule pair_of_fst)
  have w5: "same_setting ?W w5" "length (posts w5) = 1" "files w5 = Map.empty"
    using w4 by (simp_all add: w5_def same_setting_print) (simp_all add: py_print_def)
  have w6: "same_setting ?W w6" "length (posts w6) = 1" "files w6 = Map.empty"
    using same_setting_trans [OF w5(1) get_editor_feedback_frame(1)] w5
    by (simp_all add: w6_def get_editor_feedback_posts get_editor_feedback_frame)

  define w7 where "w7 = py_print Polishing w6"
  define w8 where "w8 = snd (polish_content ?proc ''Digest'' ''make it shorter'' w7)"
  have w7: "same_setting ?W w7" "length (posts w7) = 1" "files w7 = Map.empty"
    using w6 by (simp_all add: w7_def same_setting_print) (simp_all add: py_print_def)
  have change: "''make it shorter'' \<noteq> approved"
    by (simp add: approved_def)
  have "fst (polish_content ?proc ''Digest'' ''make it shorter'' w7) = Inr []"
    using w7(2)
    by (simp add: polish_content_revision(1) [OF change] call_llm_result setting(1) [OF w7(1)]
        revision_fails_def)
  then have s8: "polish_content ?proc ''Digest'' ''make it shorter'' w7 = (Inr [], w8)"
    unfolding w8_def by (rule pair_of_fst)
  have w8: "same_setting ?W w8" "length (posts w8) = 2" "files w8 = Map.empty"
    using same_setting_trans [OF w7(1) polish_content_frame(1)] w7
    by (simp_all add: w8_def polish_content_revision(2) [OF change] polish_content_frame)

  define w9 where "w9 = py_print Generating w8"
  define w10 where "w10 = snd (save_content sample_generator [] (int (length [?link])) w9)"
  have w9: "same_setting ?W w9" "length (posts w9) = 2"
    using w8 by (simp_all add: w9_def same_setting_print) (simp_all add: py_print_def)
  have "fst (save_content sample_generator [] (int (length [?link])) w9) = Inr ?p"
    by (rule sample_save_path) (simp_all add: setting [OF w9(1)])
  then have s10: "save_content sample_generator [] (int (length [?link])) w9 = (Inr ?p, w10)"
    unfolding w10_def by (rule pair_of_fst)
  have path: "path_str (joinpath (content_path sample_generator)
                (strftime_date (local_now (clock w9 (Suc (ticks w9)))) @ ''-'' @
                 getenv w9 ''OUTPUT_FILENAME_PREFIX'' ''weekly-links'' @ ''.md'')) = ?p"
    by (simp add: setting [OF w9(1)] getenv_def sample_date sample_path)
  have "\<exists>front. files w10 ?p = Some (front @ meta_content_text 1 [])"
    using save_content_written [of w9 sample_generator "[]" 1]
    unfolding path w10_def by (simp add: setting [OF w9(1)])
  moreover have "length (posts w10) = 2"
    using w9(2) by (simp add: w10_def save_content_posts)
  moreover have "main reference_lib ?W =
      (Inr (), py_print PreviewHint (py_print (Complete ?p) w10))"
    unfolding main_def flow
    by (simp only: list.distinct if_False bindW_print prod.case sum.case
        w3_def [symmetric] w5_def [symmetric] w7_def [symmetric] w9_def [symmetric]
        bindW_Inr [where m = "structure_links reference_lib ?proc [?link]" and w = w3, OF s4]
        bindW_Inr [where m = "get_editor_feedback ''Digest''" and w = w5, OF s6]
        bindW_Inr [where m = "polish_content ?proc ''Digest'' ''make it shorter''" and w = w7, OF s8]
        bindW_Inr [where m = "save_content sample_generator [] (int (length [?link]))" and w = w9,
          OF s10])
  ultimately show ?thesis by (simp add: py_print_def)
qed

end
